theory Spec2Isabelle
  imports Main "HOL-Library.Sublist"
begin

section \<open>Bytes, errors and outcomes\<close>

text \<open>
  A Go byte slice is a list of bytes. Characters stand for bytes, so that log lines can be
  written as string literals. The line terminator is the byte 0x0A.
\<close>

type_synonym byte = char

abbreviation LF :: byte where
  "LF \<equiv> CHR 0x0A"

text \<open>
  Go error values. \<open>ErrInvalid\<close> is os.ErrInvalid, returned by every method of a nil
  *os.File; \<open>ErrShortWrite\<close> is io.ErrShortWrite; \<open>Errno\<close> is a bare system error;
  \<open>PathError op path cause\<close> and \<open>LinkError op old new cause\<close> are *os.PathError and
  *os.LinkError; \<open>ErrInvalidWrite\<close> is fmt.Errorf("invalid write result: %d", nw);
  \<open>ErrMsg\<close> is errors.New or fmt.Errorf with the text given.
\<close>

datatype error =
    ErrInvalid
  | ErrShortWrite
  | Errno nat
  | ErrInvalidWrite int
  | ErrMsg string
  | ErrWrap string error
  | PathError string string error
  | LinkError string string string error

text \<open>
  A Go function either returns or panics (index out of range, slice bounds out of range).
\<close>

datatype 'a outcome = Returns 'a | Panics

section \<open>The file primitives\<close>

text \<open>
  The operating system is outside the program. It is modelled by a state holding the
  contents of every file by path, the trace of primitive calls made so far (most recent
  first) and a script of faults: every system call consumes the head of the script, and an
  exhausted script means that the call succeeds. \<open>Fault k e\<close> makes the call fail with
  error \<open>e\<close>; a write delivers \<open>k\<close> bytes (at most the length of its argument) before
  failing. An open file handle is the path it was opened at: both writers close the
  handle before they rename the file.
\<close>

datatype fault = NoFault | Fault nat error

datatype event =
    EvOpen string bool
  | EvClose "string option" bool
  | EvRename string string bool
  | EvStat "string option" bool
  | EvWrite "string option" "byte list" bool

record fsys =
  files :: "string \<Rightarrow> byte list option"
  trace :: "event list"
  faults :: "fault list"
  clock :: nat

definition next_fault :: "fsys \<Rightarrow> fault \<times> fsys" where
  "next_fault fs = (case faults fs of [] \<Rightarrow> (NoFault, fs) | f # r \<Rightarrow> (f, fs\<lparr>faults := r\<rparr>))"

definition log_event :: "event \<Rightarrow> fsys \<Rightarrow> fsys" where
  "log_event ev fs = fs\<lparr>trace := ev # trace fs\<rparr>"

definition append_file :: "string \<Rightarrow> byte list \<Rightarrow> fsys \<Rightarrow> fsys" where
  "append_file h b fs =
     fs\<lparr>files := (files fs)(h \<mapsto> (case files fs h of None \<Rightarrow> b | Some c \<Rightarrow> c @ b))\<rparr>"

text \<open>
  os.OpenFile with O_WRONLY|O_CREATE|O_APPEND, and O_TRUNC when \<open>trunc\<close> holds.
\<close>

definition os_OpenFile :: "string \<Rightarrow> bool \<Rightarrow> nat \<Rightarrow> fsys \<Rightarrow> (string option \<times> error option) \<times> fsys" where
  "os_OpenFile path trunc perm fs =
     (case next_fault fs of
        (Fault k e, fs1) \<Rightarrow> ((None, Some e), log_event (EvOpen path False) fs1)
      | (NoFault, fs1) \<Rightarrow>
          ((Some path, None),
           log_event (EvOpen path True)
             (fs1\<lparr>files := (files fs1)(path \<mapsto>
                (if trunc then [] else (case files fs1 path of None \<Rightarrow> [] | Some c \<Rightarrow> c)))\<rparr>)))"

text \<open>(*os.File).Close: a nil receiver returns os.ErrInvalid without a system call.\<close>

definition fp_Close :: "string option \<Rightarrow> fsys \<Rightarrow> error option \<times> fsys" where
  "fp_Close fp fs =
     (case fp of
        None \<Rightarrow> (Some ErrInvalid, log_event (EvClose None False) fs)
      | Some h \<Rightarrow>
          (case next_fault fs of
             (Fault k e, fs1) \<Rightarrow> (Some e, log_event (EvClose (Some h) False) fs1)
           | (NoFault, fs1) \<Rightarrow> (None, log_event (EvClose (Some h) True) fs1)))"

text \<open>
  (*os.File).Write: a nil receiver returns (0, os.ErrInvalid). Otherwise the count is
  between 0 and len(b), and the error is nil only when all of b was written (os.File
  reports io.ErrShortWrite itself otherwise).
\<close>

definition fp_Write :: "string option \<Rightarrow> fsys \<Rightarrow> byte list \<Rightarrow> (int \<times> error option) \<times> fsys" where
  "fp_Write fp fs b =
     (case fp of
        None \<Rightarrow> ((0, Some ErrInvalid), log_event (EvWrite None [] False) fs)
      | Some h \<Rightarrow>
          (case next_fault fs of
             (NoFault, fs1) \<Rightarrow>
               ((int (length b), None), log_event (EvWrite (Some h) b True) (append_file h b fs1))
           | (Fault k e, fs1) \<Rightarrow>
               ((int (min k (length b)), Some e),
                log_event (EvWrite (Some h) (take k b) False) (append_file h (take k b) fs1))))"

text \<open>(*os.File).Stat, of which only the size is used.\<close>

definition fp_Stat :: "string option \<Rightarrow> fsys \<Rightarrow> (int \<times> error option) \<times> fsys" where
  "fp_Stat fp fs =
     (case fp of
        None \<Rightarrow> ((0, Some ErrInvalid), log_event (EvStat None False) fs)
      | Some h \<Rightarrow>
          (case next_fault fs of
             (Fault k e, fs1) \<Rightarrow> ((0, Some e), log_event (EvStat (Some h) False) fs1)
           | (NoFault, fs1) \<Rightarrow>
               ((int (length (case files fs1 h of None \<Rightarrow> [] | Some c \<Rightarrow> c)), None),
                log_event (EvStat (Some h) True) fs1)))"

text \<open>os.Rename: fails when the old path does not exist (ENOENT, errno 2).\<close>

definition os_Rename :: "string \<Rightarrow> string \<Rightarrow> fsys \<Rightarrow> error option \<times> fsys" where
  "os_Rename old new fs =
     (case next_fault fs of
        (Fault k e, fs1) \<Rightarrow> (Some e, log_event (EvRename old new False) fs1)
      | (NoFault, fs1) \<Rightarrow>
          (case files fs1 old of
             None \<Rightarrow> (Some (Errno 2), log_event (EvRename old new False) fs1)
           | Some c \<Rightarrow>
               (None, log_event (EvRename old new True)
                        (fs1\<lparr>files := (files fs1)(old := None, new \<mapsto> c)\<rparr>))))"

text \<open>time.Now: the clock is read and advances.\<close>

definition time_Now :: "fsys \<Rightarrow> nat \<times> fsys" where
  "time_Now fs = (clock fs, fs\<lparr>clock := Suc (clock fs)\<rparr>)"

text \<open>filepath.Join of a directory and a base name (path cleaning is not modelled).\<close>

definition filepath_Join :: "string \<Rightarrow> string \<Rightarrow> string" where
  "filepath_Join dir name = dir @ ''/'' @ name"

text \<open>bytes.LastIndexByte: the index of the last occurrence of \<open>c\<close>, or -1.\<close>

fun LastIndexByte :: "byte list \<Rightarrow> byte \<Rightarrow> int" where
  "LastIndexByte [] c = -1"
| "LastIndexByte (x # xs) c =
     (let r = LastIndexByte xs c in if 0 \<le> r then r + 1 else if x = c then 0 else -1)"

section \<open>os.go: the wrappers of the file primitives\<close>

definition fileClose :: "string \<Rightarrow> string option \<Rightarrow> fsys \<Rightarrow> error option \<times> fsys" where
  "fileClose pathname fp fs =
     (case fp_Close fp fs of
        (None, fs1) \<Rightarrow> (None, fs1)
      | (Some (PathError op pa e), fs1) \<Rightarrow> (Some (PathError op pa e), fs1)
      | (Some e, fs1) \<Rightarrow> (Some (PathError ''close'' pathname e), fs1))"

definition fileOpen :: "string \<Rightarrow> nat \<Rightarrow> fsys \<Rightarrow> (string option \<times> error option) \<times> fsys" where
  "fileOpen pathname mode fs =
     (case os_OpenFile pathname True mode fs of
        ((fp, None), fs1) \<Rightarrow> ((fp, None), fs1)
      | ((fp, Some (PathError op pa e)), fs1) \<Rightarrow> ((None, Some (PathError op pa e)), fs1)
      | ((fp, Some e), fs1) \<Rightarrow> ((None, Some (PathError ''open'' pathname e)), fs1))"

definition fileRename :: "string \<Rightarrow> string \<Rightarrow> fsys \<Rightarrow> error option \<times> fsys" where
  "fileRename oldPath newPath fs =
     (case os_Rename oldPath newPath fs of
        (None, fs1) \<Rightarrow> (None, fs1)
      | (Some (LinkError op ol nw e), fs1) \<Rightarrow> (Some (LinkError op ol nw e), fs1)
      | (Some e, fs1) \<Rightarrow> (Some (LinkError ''rename'' oldPath newPath e), fs1))"

section \<open>logWriter.go: the writer that tracks the last line terminator\<close>

text \<open>
  The process environment read by the constructor: os.Getwd, filepath.Base(os.Args[0])
  and the layout formatting of package time.
\<close>

record procenv =
  Getwd :: "error + string"
  Args0Base :: string
  Format :: "string \<Rightarrow> nat \<Rightarrow> string"

definition defaultMaxBytes :: int where
  "defaultMaxBytes = 100 * 2 ^ 20"

definition defaultFileMode :: nat where
  "defaultFileMode = 420"

record Config =
  BaseNamePrefix :: string
  BufferBytes :: int
  Directory :: string
  FileMode :: nat
  MaxBytes :: int
  TimeFormatter :: "(nat \<Rightarrow> string) option"
  TimeFormat :: string

fun FormatInt10 :: "nat \<Rightarrow> string" where
  "FormatInt10 n =
     (if n < 10 then [''0123456789'' ! n]
      else FormatInt10 (n div 10) @ [''0123456789'' ! (n mod 10)])"

definition makeDateTimeFormatter :: "procenv \<Rightarrow> string \<Rightarrow> nat \<Rightarrow> string" where
  "makeDateTimeFormatter pe format = (\<lambda>t. Format pe format t)"

definition nanoDateTimeFormatter :: "nat \<Rightarrow> string" where
  "nanoDateTimeFormatter t = FormatInt10 t"

record LogWriter =
  buf :: "byte list"
  baseNamePrefix :: string
  directory :: string
  filePath :: string
  timeFormat :: string
  maxBytes :: int
  writtenBytes :: int
  timeFormatter :: "nat \<Rightarrow> string"
  filePointer :: "string option"
  flushThreshold :: int
  indexOfFinalNewline :: int
  fileMode :: nat

definition createLogFile :: "LogWriter \<Rightarrow> fsys \<Rightarrow> error option \<times> LogWriter \<times> fsys" where
  "createLogFile rot fs =
     (case fileOpen (filePath rot) (fileMode rot) fs of
        ((fp, err), fs1) \<Rightarrow> (err, rot\<lparr>filePointer := fp\<rparr>, fs1))"

definition closeLogFile :: "LogWriter \<Rightarrow> fsys \<Rightarrow> error option \<times> LogWriter \<times> fsys" where
  "closeLogFile rot fs =
     (case fileClose (filePath rot) (filePointer rot) fs of
        (err, fs1) \<Rightarrow> (err, rot\<lparr>filePointer := None, writtenBytes := 0\<rparr>, fs1))"

definition renameLogFile :: "LogWriter \<Rightarrow> fsys \<Rightarrow> error option \<times> LogWriter \<times> fsys" where
  "renameLogFile rot fs =
     (case time_Now fs of
        (now, fs1) \<Rightarrow>
          (let timeStamp = timeFormatter rot now;
               fileNameStamp = baseNamePrefix rot @ ''.'' @ timeStamp @ ''.log'';
               filePathStamp = filepath_Join (directory rot) fileNameStamp
           in case fileRename (filePath rot) filePathStamp fs1 of
                (err, fs2) \<Rightarrow> (err, rot, fs2)))"

definition rotate :: "LogWriter \<Rightarrow> fsys \<Rightarrow> error option \<times> LogWriter \<times> fsys" where
  "rotate rot fs =
     (case closeLogFile rot fs of
        (Some err, rot1, fs1) \<Rightarrow> (Some err, rot1, fs1)
      | (None, rot1, fs1) \<Rightarrow>
          (case renameLogFile rot1 fs1 of
             (Some err, rot2, fs2) \<Rightarrow> (Some err, rot2, fs2)
           | (None, rot2, fs2) \<Rightarrow> createLogFile rot2 fs2))"

text \<open>NewLogWriter, lines 94-149. The zero value of the struct is filled in first.\<close>

definition NewLogWriter :: "procenv \<Rightarrow> Config \<Rightarrow> fsys \<Rightarrow> (error + LogWriter) \<times> fsys" where
  "NewLogWriter pe cfg fs =
     (if BufferBytes cfg < 0 then (Inl (ErrMsg ''cannot use negative flush threshold''), fs)
      else
        (case (if Directory cfg = [] then Getwd pe else Inr (Directory cfg)) of
           Inl e \<Rightarrow> (Inl (ErrWrap ''cannot determine working directory'' e), fs)
         | Inr dir \<Rightarrow>
             (let prefix = (if BaseNamePrefix cfg = [] then Args0Base pe else BaseNamePrefix cfg);
                  mode = (if FileMode cfg = 0 then defaultFileMode else FileMode cfg);
                  maxb = (if MaxBytes cfg < 1 then defaultMaxBytes else MaxBytes cfg);
                  formatter =
                    (case TimeFormatter cfg of
                       Some f \<Rightarrow> f
                     | None \<Rightarrow>
                         (if TimeFormat cfg \<noteq> [] then makeDateTimeFormatter pe (TimeFormat cfg)
                          else nanoDateTimeFormatter));
                  lw = \<lparr>buf = [], baseNamePrefix = [], directory = [],
                        filePath = filepath_Join dir (prefix @ ''.log''), timeFormat = [],
                        maxBytes = 0, writtenBytes = 0, timeFormatter = (\<lambda>t. []),
                        filePointer = None, flushThreshold = 0, indexOfFinalNewline = 0,
                        fileMode = mode\<rparr>
              in case createLogFile lw fs of
                   (Some err, lw1, fs1) \<Rightarrow> (Inl err, fs1)
                 | (None, lw1, fs1) \<Rightarrow>
                     (Inr (lw1\<lparr>baseNamePrefix := prefix, directory := dir,
                               indexOfFinalNewline := - 1, maxBytes := maxb,
                               timeFormatter := formatter,
                               flushThreshold := (if 0 < BufferBytes cfg then BufferBytes cfg else 0)\<rparr>),
                      fs1))))"

text \<open>
  flush, lines 227-268. The rotation test and the rotation come first (lines 230-239);
  the slice expression \<open>lw.buf[:index]\<close> panics when the index is outside the buffer.
\<close>

definition flush_rotate :: "LogWriter \<Rightarrow> fsys \<Rightarrow> int \<Rightarrow> error option \<times> LogWriter \<times> fsys" where
  "flush_rotate lw fs index =
     (let count = index; potentialSize = writtenBytes lw + count
      in if potentialSize > maxBytes lw \<or> count > maxBytes lw then rotate lw fs
         else (None, lw, fs))"

definition flush_write ::
  "LogWriter \<Rightarrow> fsys \<Rightarrow> int \<Rightarrow> int \<Rightarrow> int \<Rightarrow> ((int \<times> error option) \<times> LogWriter \<times> fsys) outcome" where
  "flush_write lw fs olen dlen index =
     (if index < 0 \<or> int (length (buf lw)) < index then Panics
      else
        (case fp_Write (filePointer lw) fs (take (nat index) (buf lw)) of
           ((nw0, err0), fs1) \<Rightarrow>
             (let (nw, err, lw1) =
                    (if nw0 < 0 \<or> nw0 > index
                     then (0, (if err0 = None then Some (ErrInvalidWrite nw0) else err0), lw)
                     else if nw0 > 0
                     then (nw0, err0,
                           lw\<lparr>writtenBytes := writtenBytes lw + nw0,
                              buf := drop (nat nw0) (buf lw)\<rparr>)
                     else (nw0, err0, lw))
              in if err = None
                 then Returns ((dlen, None),
                        lw1\<lparr>indexOfFinalNewline := indexOfFinalNewline lw1 - nw\<rparr>, fs1)
                 else
                   (let nb = nw - olen
                    in if nb < 0
                       then (if int (length (buf lw1)) < - nb then Panics
                             else
                               (let lw2 = lw1\<lparr>buf := take (nat (- nb)) (buf lw1)\<rparr>
                                in Returns ((0, err),
                                     lw2\<lparr>indexOfFinalNewline := LastIndexByte (buf lw2) LF\<rparr>,
                                     fs1)))
                       else
                         (let lw2 = lw1\<lparr>buf := []\<rparr>
                          in Returns ((nb, err),
                               lw2\<lparr>indexOfFinalNewline := LastIndexByte (buf lw2) LF\<rparr>,
                               fs1))))))"

definition flush ::
  "LogWriter \<Rightarrow> fsys \<Rightarrow> int \<Rightarrow> int \<Rightarrow> int \<Rightarrow> ((int \<times> error option) \<times> LogWriter \<times> fsys) outcome" where
  "flush lw fs olen dlen index =
     (case flush_rotate lw fs index of
        (Some err, lw1, fs1) \<Rightarrow> Returns ((0, Some err), lw1, fs1)
      | (None, lw1, fs1) \<Rightarrow> flush_write lw1 fs1 olen dlen index)"

text \<open>Write, lines 185-223.\<close>

definition Write ::
  "LogWriter \<Rightarrow> fsys \<Rightarrow> byte list \<Rightarrow> ((int \<times> error option) \<times> LogWriter \<times> fsys) outcome" where
  "Write lw fs p =
     (if flushThreshold lw = 0
      then
        (case (if writtenBytes lw + int (length p) > maxBytes lw then rotate lw fs
               else (None, lw, fs)) of
           (Some err, lw1, fs1) \<Rightarrow> Returns ((0, Some err), lw1, fs1)
         | (None, lw1, fs1) \<Rightarrow>
             (case fp_Write (filePointer lw1) fs1 p of
                ((n, err), fs2) \<Rightarrow>
                  Returns ((n, err), lw1\<lparr>writtenBytes := writtenBytes lw1 + n\<rparr>, fs2)))
      else
        (let origBufLen = int (length (buf lw));
             lw1 = lw\<lparr>buf := buf lw @ p\<rparr>;
             index = LastIndexByte p LF;
             lw2 = (if 0 \<le> index then lw1\<lparr>indexOfFinalNewline := origBufLen + index\<rparr> else lw1)
         in if int (length (buf lw2)) \<le> flushThreshold lw2 \<or> indexOfFinalNewline lw2 < 0
            then Returns ((int (length p), None), lw2, fs)
            else flush lw2 fs origBufLen (int (length p)) (indexOfFinalNewline lw2 + 1)))"

text \<open>Close, lines 154-172.\<close>

definition Close :: "LogWriter \<Rightarrow> fsys \<Rightarrow> error option \<times> LogWriter \<times> fsys" where
  "Close lw fs =
     (case (if 0 < length (buf lw)
            then (case fp_Write (filePointer lw) fs (buf lw) of
                    ((n, err), fs1) \<Rightarrow> (err, lw\<lparr>buf := []\<rparr>, fs1))
            else (None, lw, fs)) of
        (writeErr, lw1, fs1) \<Rightarrow>
          (case closeLogFile (lw1\<lparr>indexOfFinalNewline := - 1\<rparr>) fs1 of
             (closeErr, lw2, fs2) \<Rightarrow>
               ((if writeErr \<noteq> None then writeErr else closeErr), lw2, fs2)))"

text \<open>A caller that issues one Write after another, stopping at a panic.\<close>

fun Writes ::
  "LogWriter \<Rightarrow> fsys \<Rightarrow> byte list list \<Rightarrow> ((int \<times> error option) list \<times> LogWriter \<times> fsys) outcome" where
  "Writes lw fs [] = Returns ([], lw, fs)"
| "Writes lw fs (p # ps) =
     (case Write lw fs p of
        Panics \<Rightarrow> Panics
      | Returns (r, lw1, fs1) \<Rightarrow>
          (case Writes lw1 fs1 ps of
             Panics \<Rightarrow> Panics
           | Returns (rs, lw2, fs2) \<Rightarrow> Returns (r # rs, lw2, fs2)))"

section \<open>Observations on the file system\<close>

text \<open>The bytes delivered to files by the write events of a trace, oldest first.\<close>

fun bytes_written :: "event list \<Rightarrow> byte list" where
  "bytes_written [] = []"
| "bytes_written (EvWrite h b ok # tr) = bytes_written tr @ b"
| "bytes_written (ev # tr) = bytes_written tr"

text \<open>The events that make up a rotation: close, rename and open.\<close>

fun is_rotation_event :: "event \<Rightarrow> bool" where
  "is_rotation_event (EvWrite h b ok) = False"
| "is_rotation_event (EvStat h ok) = False"
| "is_rotation_event ev = True"

fun is_write_event :: "event \<Rightarrow> bool" where
  "is_write_event (EvWrite h b ok) = True"
| "is_write_event ev = False"

definition disk :: "fsys \<Rightarrow> string \<Rightarrow> byte list" where
  "disk fs path = (case files fs path of None \<Rightarrow> [] | Some c \<Rightarrow> c)"

text \<open>The invariant of the writer: the recorded index is that of the last terminator.\<close>

definition index_ok :: "LogWriter \<Rightarrow> bool" where
  "index_ok lw \<longleftrightarrow> indexOfFinalNewline lw = LastIndexByte (buf lw) LF"

text \<open>The shapes a rotation can take: the events it adds, most recent first.\<close>

definition rotation_steps :: "LogWriter \<Rightarrow> error option \<Rightarrow> event list \<Rightarrow> bool" where
  "rotation_steps lw err evs \<longleftrightarrow>
     (\<exists>e. err = Some e \<and> evs = [EvClose (filePointer lw) False])
   \<or> (\<exists>e new. err = Some e
         \<and> evs = [EvRename (filePath lw) new False, EvClose (filePointer lw) True])
   \<or> (\<exists>e new. err = Some e
         \<and> evs = [EvOpen (filePath lw) False, EvRename (filePath lw) new True,
                  EvClose (filePointer lw) True])
   \<or> (\<exists>new. err = None
         \<and> evs = [EvOpen (filePath lw) True, EvRename (filePath lw) new True,
                  EvClose (filePointer lw) True])"

text \<open>The fields that only the constructor and the rotation write.\<close>

definition same_config :: "LogWriter \<Rightarrow> LogWriter \<Rightarrow> bool" where
  "same_config lw lw' \<longleftrightarrow>
     filePointer lw' = filePointer lw \<and> maxBytes lw' = maxBytes lw
   \<and> flushThreshold lw' = flushThreshold lw \<and> filePath lw' = filePath lw
   \<and> baseNamePrefix lw' = baseNamePrefix lw \<and> directory lw' = directory lw
   \<and> timeFormatter lw' = timeFormatter lw \<and> fileMode lw' = fileMode lw"

section \<open>Example states\<close>

text \<open>
  A file system in which the log file of the examples is open and empty, with a given
  script of faults, and a writer of logWriter.go on it with a given threshold, size limit
  and pending buffer.
\<close>

definition example_fs :: "fault list \<Rightarrow> fsys" where
  "example_fs fl =
     \<lparr>files = (\<lambda>p. None)(''logs/app.log'' \<mapsto> []), trace = [EvOpen ''logs/app.log'' True],
      faults = fl, clock = 0\<rparr>"

definition example_lw :: "int \<Rightarrow> int \<Rightarrow> byte list \<Rightarrow> LogWriter" where
  "example_lw thr maxb b =
     \<lparr>buf = b, baseNamePrefix = ''app'', directory = ''logs'', filePath = ''logs/app.log'',
      timeFormat = [], maxBytes = maxb, writtenBytes = 0,
      timeFormatter = nanoDateTimeFormatter, filePointer = Some ''logs/app.log'',
      flushThreshold = thr, indexOfFinalNewline = LastIndexByte b LF, fileMode = 420\<rparr>"

text \<open>
  The reading of claim C3 as it is written: after the call, the bytes of \<open>p\<close> beyond the
  reported count are still in the pending buffer, at its end.
\<close>

definition retains_unwritten :: "LogWriter \<Rightarrow> fsys \<Rightarrow> byte list \<Rightarrow> bool" where
  "retains_unwritten lw fs p =
     (case Write lw fs p of
        Panics \<Rightarrow> False
      | Returns ((n, err), lw', fs') \<Rightarrow> suffix (drop (nat n) p) (buf lw'))"

text \<open>
  The state of a writer of logWriter.go whose file primitives have not failed: \<open>d\<close> is
  the data accepted so far, of which the file holds the part already flushed.
\<close>

definition steady :: "LogWriter \<Rightarrow> fsys \<Rightarrow> byte list \<Rightarrow> bool" where
  "steady lw fs d \<longleftrightarrow>
     faults fs = [] \<and> filePointer lw = Some (filePath lw) \<and> index_ok lw
   \<and> (flushThreshold lw = 0 \<longrightarrow> buf lw = [])
   \<and> (\<exists>c. files fs (filePath lw) = Some c \<and> d = c @ buf lw
          \<and> writtenBytes lw = int (length c))"

text \<open>The invariant claimed by C10: nothing is left to flush when Write returns.\<close>

definition flush_settled :: "LogWriter \<Rightarrow> bool" where
  "flush_settled lw \<longleftrightarrow>
     int (length (buf lw)) \<le> flushThreshold lw \<or> indexOfFinalNewline lw = - 1"

text \<open>
  A process environment, a configuration and an empty file system on which the
  constructor yields the example writer with threshold 4 and size limit 16.
\<close>

definition example_env :: procenv where
  "example_env = \<lparr>Getwd = Inr ''/var/log'', Args0Base = ''app'', Format = (\<lambda>f t. FormatInt10 t)\<rparr>"

definition example_cfg :: Config where
  "example_cfg =
     \<lparr>BaseNamePrefix = ''app'', BufferBytes = 4, Directory = ''logs'', FileMode = 0,
      MaxBytes = 16, TimeFormatter = None, TimeFormat = []\<rparr>"

definition empty_fs :: fsys where
  "empty_fs = \<lparr>files = (\<lambda>p. None), trace = [], faults = [], clock = 0\<rparr>"

section \<open>file.go: the writer that tracks write extents\<close>

text \<open>
  The second writer of the repository keeps, beside the pending bytes, the length of each
  write extent. Its names that clash with those of logWriter.go carry the suffix F. The
  constants defaultMaxBytes and defaultFileMode and the two time formatters are the same
  in both files. Lengths and sizes are Go's int and int64; they are modelled as unbounded
  integers, which agrees with the code as long as no count reaches 2^63.
\<close>

definition defaultBufferSizeMax :: int where
  "defaultBufferSizeMax = 128"

record ConfigF =
  BaseNamePrefixF :: string
  BufferSizeMax :: int
  DirectoryF :: string
  FileModeF :: nat
  MaxBytesF :: int
  TimeFormatterF :: "(nat \<Rightarrow> string) option"
  TimeFormatF :: string

record LogWriterF =
  cfgF :: ConfigF
  bufF :: "byte list"
  extents :: "int list"
  writeTimes :: "nat list"
  timeOfFirstWrite :: string
  filePathF :: string
  fileSizeNow :: int
  filePointerF :: "string option"
  waitingForNewline :: bool

text \<open>closeLog, lines 12-18.\<close>

definition closeLog :: "LogWriterF \<Rightarrow> fsys \<Rightarrow> error option \<times> LogWriterF \<times> fsys" where
  "closeLog lw fs =
     (case fp_Close (filePointerF lw) fs of
        (err, fs1) \<Rightarrow> (err, lw\<lparr>filePointerF := None, fileSizeNow := 0\<rparr>, fs1))"

text \<open>openLog, lines 22-48: the file is opened for appending, without truncation.\<close>

definition openLog :: "LogWriterF \<Rightarrow> fsys \<Rightarrow> error option \<times> LogWriterF \<times> fsys" where
  "openLog lw fs =
     (case os_OpenFile (filePathF lw) False (FileModeF (cfgF lw)) fs of
        ((fp, Some err), fs1) \<Rightarrow> (Some err, lw\<lparr>filePointerF := fp\<rparr>, fs1)
      | ((fp, None), fs1) \<Rightarrow>
          (case fp_Stat fp fs1 of
             ((sz, Some err), fs2) \<Rightarrow>
               (case fp_Close fp fs2 of
                  (ignored, fs3) \<Rightarrow> (Some err, lw\<lparr>filePointerF := None\<rparr>, fs3))
           | ((sz, None), fs2) \<Rightarrow>
               (None, lw\<lparr>filePointerF := fp, fileSizeNow := sz\<rparr>, fs2)))"

text \<open>
  renameLog, lines 52-72. The call of a nil \<open>TimeFormatter\<close> panics; the constructor
  always sets one.
\<close>

definition renameLog ::
  "LogWriterF \<Rightarrow> fsys \<Rightarrow> (error option \<times> LogWriterF \<times> fsys) outcome" where
  "renameLog lw fs =
     (case time_Now fs of
        (now, fs1) \<Rightarrow>
          (case TimeFormatterF (cfgF lw) of
             None \<Rightarrow> Panics
           | Some f \<Rightarrow>
               (let timeStamp = f now;
                    lw1 = lw\<lparr>timeOfFirstWrite := []\<rparr>;
                    fileNameStamp = BaseNamePrefixF (cfgF lw1) @ ''.'' @ timeStamp @ ''.log'';
                    filePathStamp = filepath_Join (DirectoryF (cfgF lw1)) fileNameStamp
                in case os_Rename (filePathF lw1) filePathStamp fs1 of
                     (err, fs2) \<Rightarrow> Returns (err, lw1, fs2))))"

text \<open>rotateLog, lines 83-100.\<close>

definition rotateLog ::
  "LogWriterF \<Rightarrow> fsys \<Rightarrow> (error option \<times> LogWriterF \<times> fsys) outcome" where
  "rotateLog lw fs =
     (case closeLog lw fs of
        (Some err, lw1, fs1) \<Rightarrow> Returns (Some err, lw1, fs1)
      | (None, lw1, fs1) \<Rightarrow>
          (case renameLog lw1 fs1 of
             Panics \<Rightarrow> Panics
           | Returns (Some err, lw2, fs2) \<Rightarrow> Returns (Some err, lw2, fs2)
           | Returns (None, lw2, fs2) \<Rightarrow> Returns (openLog lw2 fs2)))"

text \<open>writeBytes, lines 103-124.\<close>

definition writeBytes ::
  "LogWriterF \<Rightarrow> fsys \<Rightarrow> byte list \<Rightarrow> (int \<times> error option) \<times> LogWriterF \<times> fsys" where
  "writeBytes lw fs p =
     (case fp_Write (filePointerF lw) fs p of
        ((nw, err), fs1) \<Rightarrow>
          (if nw < 0 \<or> nw > int (length p)
           then (if err \<noteq> None then ((nw, err), lw, fs1)
                 else ((nw, Some (ErrMsg ''invalid write result'')), lw, fs1))
           else
             (let err1 = (if nw < int (length p) \<and> err = None then Some ErrShortWrite else err)
              in ((nw, err1), lw\<lparr>fileSizeNow := fileSizeNow lw + nw\<rparr>, fs1))))"

text \<open>
  The loop of writeExtents, lines 153-164, which finds the extents that a failed write
  delivered in full and shortens the one it delivered in part. After that assignment
  \<open>nw\<close> is negative and the loop ends. An index outside \<open>extents\<close> panics.
\<close>

function settle_extents :: "int list \<Rightarrow> int \<Rightarrow> int \<Rightarrow> int \<Rightarrow> (int \<times> int list \<times> int) outcome" where
  "settle_extents exts nw extentCount extentCountMax =
     (if 0 < nw \<and> extentCount < extentCountMax
      then (if extentCount < 0 \<or> int (length exts) \<le> extentCount then Panics
            else if nw - exts ! nat extentCount < 0
            then Returns (nw - exts ! nat extentCount,
                          exts[nat extentCount := exts ! nat extentCount + (nw - exts ! nat extentCount)],
                          extentCount)
            else settle_extents exts (nw - exts ! nat extentCount) (extentCount + 1) extentCountMax)
      else Returns (nw, exts, extentCount))"
  by pat_completeness auto
termination
  by (relation "measure (\<lambda>(exts, nw, extentCount, extentCountMax). nat (extentCountMax - extentCount))")
    auto

text \<open>
  writeExtents, lines 126-175. The slice expressions panic outside the buffer. (Go allows
  \<open>buf[:n]\<close> up to the capacity; the model keeps no capacity and panics beyond the length.)
\<close>

definition writeExtents ::
  "LogWriterF \<Rightarrow> fsys \<Rightarrow> int \<Rightarrow> int \<Rightarrow> ((int \<times> error option) \<times> LogWriterF \<times> fsys) outcome" where
  "writeExtents lw fs extentCount byteCount =
     (if byteCount < 0 \<or> int (length (bufF lw)) < byteCount then Panics
      else
        (case fp_Write (filePointerF lw) fs (take (nat byteCount) (bufF lw)) of
           ((nw, err), fs1) \<Rightarrow>
             (if nw < 0 \<or> nw > byteCount
              then Returns ((0, (if err \<noteq> None then err
                                 else Some (ErrMsg ''invalid write result''))), lw, fs1)
              else
                (let err1 = (if nw < byteCount \<and> err = None then Some ErrShortWrite else err);
                     lw1 = lw\<lparr>fileSizeNow := fileSizeNow lw + nw,
                              bufF := drop (nat nw) (bufF lw)\<rparr>
                 in case (if err1 \<noteq> None then settle_extents (extents lw1) nw 0 extentCount
                          else Returns (nw, extents lw1, extentCount)) of
                      Panics \<Rightarrow> Panics
                    | Returns (nw1, exts, extentCount1) \<Rightarrow>
                        (if extentCount1 < 0 \<or> int (length exts) < extentCount1 then Panics
                         else Returns ((nw1, err1),
                                lw1\<lparr>extents := drop (nat extentCount1) exts\<rparr>, fs1))))))"

text \<open>
  The loop of flushAsMuchAsPossible, lines 473-479, over the extents that may be flushed:
  the bytes and the number of the leading extents that fit in the remaining room.
\<close>

fun count_fitting :: "int list \<Rightarrow> int \<Rightarrow> int \<Rightarrow> int \<Rightarrow> int \<times> int" where
  "count_fitting [] bytesRemaining flushByteCount flushExtentCount =
     (flushByteCount, flushExtentCount)"
| "count_fitting (e # es) bytesRemaining flushByteCount flushExtentCount =
     (if flushByteCount + e > bytesRemaining then (flushByteCount, flushExtentCount)
      else count_fitting es bytesRemaining (flushByteCount + e) (flushExtentCount + 1))"

text \<open>flushAsMuchAsPossible, lines 446-498.\<close>

definition flushAsMuchAsPossible ::
  "LogWriterF \<Rightarrow> fsys \<Rightarrow> (error option \<times> LogWriterF \<times> fsys) outcome" where
  "flushAsMuchAsPossible lw fs =
     (let flushExtentCountMax =
            int (length (extents lw)) - (if waitingForNewline lw then 1 else 0)
      in if flushExtentCountMax = 0 then Returns (None, lw, fs)
         else
           (let bytesRemaining = MaxBytesF (cfgF lw) - fileSizeNow lw;
                (flushByteCount, flushExtentCount) =
                   count_fitting (take (nat flushExtentCountMax) (extents lw)) bytesRemaining 0 0
            in if flushExtentCount = 0 then Returns (None, lw, fs)
               else
                 (case writeExtents lw fs flushExtentCount flushByteCount of
                    Panics \<Rightarrow> Panics
                  | Returns ((n, err), lw1, fs1) \<Rightarrow> Returns (err, lw1, fs1))))"

text \<open>
  flushCompletedExtents, lines 397-440. One turn of its loop either leaves the function
  with a result or goes round again with a new state; nothing in the code bounds the
  number of turns, so the loop is a partial function, \<open>None\<close> when it does not return.
\<close>

datatype loop_turn =
    Leave "(error option \<times> LogWriterF \<times> fsys) outcome"
  | Again LogWriterF fsys

definition flush_turn :: "LogWriterF \<Rightarrow> fsys \<Rightarrow> loop_turn" where
  "flush_turn lw fs =
     (case flushAsMuchAsPossible lw fs of
        Panics \<Rightarrow> Leave Panics
      | Returns (Some err, lw1, fs1) \<Rightarrow> Leave (Returns (Some err, lw1, fs1))
      | Returns (None, lw1, fs1) \<Rightarrow> Again lw1 fs1)"

definition flushCompletedExtents_turn :: "LogWriterF \<Rightarrow> fsys \<Rightarrow> loop_turn" where
  "flushCompletedExtents_turn lw fs =
     (if 0 < length (extents lw)
      then
        (if length (extents lw) = 1 \<and> waitingForNewline lw then Leave (Returns (None, lw, fs))
         else if extents lw ! 0 + fileSizeNow lw > MaxBytesF (cfgF lw)
         then
           (case (if 0 < fileSizeNow lw then rotateLog lw fs else Returns (None, lw, fs)) of
              Panics \<Rightarrow> Leave Panics
            | Returns (Some err, lw1, fs1) \<Rightarrow> Leave (Returns (Some err, lw1, fs1))
            | Returns (None, lw1, fs1) \<Rightarrow>
                (if extents lw1 = [] then Leave Panics
                 else if extents lw1 ! 0 > MaxBytesF (cfgF lw1)
                 then
                   (case writeExtents lw1 fs1 1 (extents lw1 ! 0) of
                      Panics \<Rightarrow> Leave Panics
                    | Returns ((n, Some err), lw2, fs2) \<Rightarrow> Leave (Returns (Some err, lw2, fs2))
                    | Returns ((n, None), lw2, fs2) \<Rightarrow> Again lw2 fs2)
                 else flush_turn lw1 fs1))
         else flush_turn lw fs)
      else Leave (Returns (None, lw, fs)))"

partial_function (option) flushCompletedExtents ::
  "LogWriterF \<Rightarrow> fsys \<Rightarrow> (error option \<times> LogWriterF \<times> fsys) outcome option" where
  "flushCompletedExtents lw fs =
     (case flushCompletedExtents_turn lw fs of
        Leave r \<Rightarrow> Some r
      | Again lw1 fs1 \<Rightarrow> flushCompletedExtents lw1 fs1)"

text \<open>
  Close of file.go, lines 375-394. \<open>None\<close> when the flush does not return.
\<close>

definition CloseF :: "LogWriterF \<Rightarrow> fsys \<Rightarrow> (error option \<times> LogWriterF \<times> fsys) outcome option" where
  "CloseF lw fs =
     (if 0 < length (bufF lw)
      then
        (case (if waitingForNewline lw
               then (if extents lw = [] then Panics
                     else Returns (lw\<lparr>bufF := bufF lw @ [LF],
                                     extents := (extents lw)[length (extents lw) - 1 :=
                                                   last (extents lw) + 1],
                                     waitingForNewline := False\<rparr>))
               else Returns lw) of
           Panics \<Rightarrow> Some Panics
         | Returns lw1 \<Rightarrow>
             (case flushCompletedExtents lw1 fs of
                None \<Rightarrow> None
              | Some Panics \<Rightarrow> Some Panics
              | Some (Returns (Some err, lw2, fs2)) \<Rightarrow>
                  (case closeLog lw2 fs2 of
                     (ignored, lw3, fs3) \<Rightarrow> Some (Returns (Some err, lw3, fs3)))
              | Some (Returns (None, lw2, fs2)) \<Rightarrow> Some (Returns (closeLog lw2 fs2))))
      else Some (Returns (closeLog lw fs)))"

text \<open>
  Write of file.go, lines 511-577. The index expression \<open>p[len(p)-1]\<close> panics on an empty
  slice, and \<open>extents[len(extents)-1]\<close> on an empty list of extents.
\<close>

definition WriteF ::
  "LogWriterF \<Rightarrow> fsys \<Rightarrow> byte list \<Rightarrow> ((int \<times> error option) \<times> LogWriterF \<times> fsys) outcome option" where
  "WriteF lw0 fs0 p =
     (case (if timeOfFirstWrite lw0 = []
            then (case time_Now fs0 of
                    (now, fs1) \<Rightarrow>
                      (case TimeFormatterF (cfgF lw0) of
                         None \<Rightarrow> Panics
                       | Some f \<Rightarrow> Returns (lw0\<lparr>timeOfFirstWrite := f now\<rparr>, fs1)))
            else Returns (lw0, fs0)) of
        Panics \<Rightarrow> Some Panics
      | Returns (lw, fs) \<Rightarrow>
          (if 0 < BufferSizeMax (cfgF lw)
           then
             (case (if 0 < length (bufF lw)
                       \<and> int (length (bufF lw)) + int (length p) > BufferSizeMax (cfgF lw)
                       \<and> (1 < length (extents lw) \<or> \<not> waitingForNewline lw)
                    then flushCompletedExtents lw fs
                    else Some (Returns (None, lw, fs))) of
                None \<Rightarrow> None
              | Some Panics \<Rightarrow> Some Panics
              | Some (Returns (Some err, lw1, fs1)) \<Rightarrow> Some (Returns ((0, Some err), lw1, fs1))
              | Some (Returns (None, lw1, fs1)) \<Rightarrow>
                  (if waitingForNewline lw1 \<and> extents lw1 = [] then Some Panics
                   else
                     (let lw2 =
                            (if waitingForNewline lw1
                             then lw1\<lparr>extents := (extents lw1)[length (extents lw1) - 1 :=
                                                     last (extents lw1) + int (length p)]\<rparr>
                             else lw1\<lparr>extents := extents lw1 @ [int (length p)]\<rparr>);
                          lw3 = lw2\<lparr>bufF := bufF lw2 @ p\<rparr>
                      in if p = [] then Some Panics
                         else Some (Returns ((int (length p), None),
                                      lw3\<lparr>waitingForNewline := (last p \<noteq> LF)\<rparr>, fs1)))))
           else
             (case (if 0 < fileSizeNow lw \<and> fileSizeNow lw + int (length p) > MaxBytesF (cfgF lw)
                    then rotateLog lw fs else Returns (None, lw, fs)) of
                Panics \<Rightarrow> Some Panics
              | Returns (Some err, lw1, fs1) \<Rightarrow> Some (Returns ((0, Some err), lw1, fs1))
              | Returns (None, lw1, fs1) \<Rightarrow> Some (Returns (writeBytes lw1 fs1 p)))))"

text \<open>
  NewLogWriter of file.go, lines 303-365. A nil configuration stands for the zero value.
  (The code writes the defaults into the caller's structure as well.)
\<close>

definition zeroConfigF :: ConfigF where
  "zeroConfigF =
     \<lparr>BaseNamePrefixF = [], BufferSizeMax = 0, DirectoryF = [], FileModeF = 0, MaxBytesF = 0,
      TimeFormatterF = None, TimeFormatF = []\<rparr>"

definition NewLogWriterF ::
  "procenv \<Rightarrow> ConfigF option \<Rightarrow> fsys \<Rightarrow> (error + LogWriterF) \<times> fsys" where
  "NewLogWriterF pe cfg0 fs =
     (let c0 = (case cfg0 of None \<Rightarrow> zeroConfigF | Some c \<Rightarrow> c)
      in if BufferSizeMax c0 \<noteq> - 1 \<and> BufferSizeMax c0 < 0
         then (Inl (ErrMsg ''cannot use negative flush threshold''), fs)
         else
           (let c1 = c0\<lparr>BufferSizeMax :=
                         (if BufferSizeMax c0 = - 1 then 0
                          else if BufferSizeMax c0 = 0 then defaultBufferSizeMax
                          else BufferSizeMax c0)\<rparr>
            in case (if DirectoryF c1 = [] then Getwd pe else Inr (DirectoryF c1)) of
                 Inl e \<Rightarrow> (Inl (ErrWrap ''cannot determine working directory'' e), fs)
               | Inr dir \<Rightarrow>
                   (let c2 = c1\<lparr>DirectoryF := dir\<rparr>;
                        c3 = (if BaseNamePrefixF c2 = [] then c2\<lparr>BaseNamePrefixF := Args0Base pe\<rparr>
                              else c2);
                        c4 = (if FileModeF c3 = 0 then c3\<lparr>FileModeF := defaultFileMode\<rparr> else c3);
                        c5 = (if MaxBytesF c4 = 0 then c4\<lparr>MaxBytesF := defaultMaxBytes\<rparr> else c4);
                        c6 = (case TimeFormatterF c5 of
                                Some f \<Rightarrow> c5
                              | None \<Rightarrow>
                                  (if TimeFormatF c5 \<noteq> []
                                   then c5\<lparr>TimeFormatterF :=
                                             Some (makeDateTimeFormatter pe (TimeFormatF c5))\<rparr>
                                   else c5\<lparr>TimeFormatterF := Some nanoDateTimeFormatter\<rparr>));
                        lw = \<lparr>cfgF = c6, bufF = [], extents = [], writeTimes = [],
                              timeOfFirstWrite = [],
                              filePathF = filepath_Join (DirectoryF c6) (BaseNamePrefixF c6 @ ''.log''),
                              fileSizeNow = 0, filePointerF = None, waitingForNewline = False\<rparr>
                    in case openLog lw fs of
                         (Some err, lw1, fs1) \<Rightarrow> (Inl err, fs1)
                       | (None, lw1, fs1) \<Rightarrow> (Inr lw1, fs1))))"

text \<open>
  The shapes a rotation of file.go can take. Its last step opens the file and asks for its
  size; when the size cannot be read, the new handle is closed again.
\<close>

definition rotation_stepsF :: "LogWriterF \<Rightarrow> error option \<Rightarrow> event list \<Rightarrow> bool" where
  "rotation_stepsF lw err evs \<longleftrightarrow>
     (\<exists>e. err = Some e \<and> evs = [EvClose (filePointerF lw) False])
   \<or> (\<exists>e new. err = Some e
         \<and> evs = [EvRename (filePathF lw) new False, EvClose (filePointerF lw) True])
   \<or> (\<exists>e new. err = Some e
         \<and> evs = [EvOpen (filePathF lw) False, EvRename (filePathF lw) new True,
                  EvClose (filePointerF lw) True])
   \<or> (\<exists>e new ok. err = Some e
         \<and> evs = [EvClose (Some (filePathF lw)) ok, EvStat (Some (filePathF lw)) False,
                  EvOpen (filePathF lw) True, EvRename (filePathF lw) new True,
                  EvClose (filePointerF lw) True])
   \<or> (\<exists>new. err = None
         \<and> evs = [EvStat (Some (filePathF lw)) True, EvOpen (filePathF lw) True,
                  EvRename (filePathF lw) new True, EvClose (filePointerF lw) True])"

text \<open>
  A writer of file.go on the log file of the examples, with a given buffer size and size
  limit, the process environment in which the constructor yields it, and the file system
  that the constructor leaves.
\<close>

definition example_lwF :: "int \<Rightarrow> int \<Rightarrow> LogWriterF" where
  "example_lwF bmax maxb =
     \<lparr>cfgF = \<lparr>BaseNamePrefixF = ''app'', BufferSizeMax = bmax, DirectoryF = ''logs'',
              FileModeF = 420, MaxBytesF = maxb, TimeFormatterF = Some nanoDateTimeFormatter,
              TimeFormatF = []\<rparr>,
      bufF = [], extents = [], writeTimes = [], timeOfFirstWrite = [],
      filePathF = ''logs/app.log'', fileSizeNow = 0, filePointerF = Some ''logs/app.log'',
      waitingForNewline = False\<rparr>"

definition example_envF :: procenv where
  "example_envF = \<lparr>Getwd = Inr ''logs'', Args0Base = ''app'', Format = (\<lambda>f t. FormatInt10 t)\<rparr>"

definition example_fsF :: "fault list \<Rightarrow> fsys" where
  "example_fsF fl =
     \<lparr>files = (\<lambda>p. None)(''logs/app.log'' \<mapsto> []),
      trace = [EvStat (Some ''logs/app.log'') True, EvOpen ''logs/app.log'' True],
      faults = fl, clock = 0\<rparr>"

section \<open>Properties of the primitives\<close>


lemma LastIndexByte_range: "- 1 \<le> LastIndexByte s c \<and> LastIndexByte s c < int (length s)"
  by (induction s) (auto simp: Let_def)

lemma LastIndexByte_append:
  "LastIndexByte (a @ b) c =
     (if 0 \<le> LastIndexByte b c then int (length a) + LastIndexByte b c else LastIndexByte a c)"
proof (induction a)
  case Nil
  show ?case using LastIndexByte_range[of b c] by auto
next
  case (Cons x xs)
  then show ?case using LastIndexByte_range[of xs c] by (auto simp: Let_def)
qed

lemma LastIndexByte_neg_iff: "LastIndexByte s c < 0 \<longleftrightarrow> c \<notin> set s"
  by (induction s) (auto simp: Let_def)


lemma LastIndexByte_drop:
  "LastIndexByte (drop (nat (LastIndexByte s c + 1)) s) c = - 1"
proof (induction s)
  case Nil
  then show ?case by simp
next
  case (Cons x xs)
  show ?case
  proof (cases "0 \<le> LastIndexByte xs c")
    case True
    then have "nat (LastIndexByte xs c + 1 + 1) = Suc (nat (LastIndexByte xs c + 1))" by simp
    with True Cons.IH show ?thesis by (simp add: Let_def)
  next
    case False
    then have n: "LastIndexByte xs c = - 1" using LastIndexByte_range[of xs c] by simp
    then show ?thesis by (auto simp: Let_def)
  qed
qed


lemma fp_Write_effect:
  assumes "fp_Write fp fs b = ((n, err), fs')"
  shows "\<exists>c ok. trace fs' = EvWrite fp c ok # trace fs \<and> prefix c b \<and> n = int (length c)
           \<and> (err = None \<longrightarrow> c = b \<and> fp \<noteq> None)
           \<and> (\<forall>h. fp = Some h \<longrightarrow> disk fs' h = disk fs h @ c)
           \<and> clock fs' = clock fs"
  using assms
  by (auto simp: fp_Write_def next_fault_def log_event_def append_file_def disk_def take_is_prefix
           split: option.splits list.splits fault.splits)

lemma fileClose_effect:
  assumes "fileClose path fp fs = (err, fs')"
  shows "\<exists>ok. trace fs' = EvClose fp ok # trace fs \<and> (ok \<longleftrightarrow> err = None)
           \<and> files fs' = files fs \<and> clock fs' = clock fs"
  using assms
  by (auto simp: fileClose_def fp_Close_def next_fault_def log_event_def
           split: option.splits list.splits fault.splits error.splits)

lemma fileRename_effect:
  assumes "fileRename old new fs = (err, fs')"
  shows "\<exists>ok. trace fs' = EvRename old new ok # trace fs \<and> (ok \<longleftrightarrow> err = None)"
  using assms
  by (auto simp: fileRename_def os_Rename_def next_fault_def log_event_def
           split: option.splits list.splits fault.splits error.splits)

lemma fileOpen_effect:
  assumes "fileOpen path mode fs = ((fp, err), fs')"
  shows "\<exists>ok. trace fs' = EvOpen path ok # trace fs \<and> (ok \<longleftrightarrow> err = None)
          \<and> (err = None \<longrightarrow> fp = Some path \<and> disk fs' path = [])
          \<and> (err \<noteq> None \<longrightarrow> fp = None)"
  using assms
  by (auto simp: fileOpen_def os_OpenFile_def next_fault_def log_event_def disk_def
           split: option.splits list.splits fault.splits error.splits)


lemma closeLogFile_effect:
  assumes "closeLogFile lw fs = (err, lw', fs')"
  shows "lw' = lw\<lparr>filePointer := None, writtenBytes := 0\<rparr>
         \<and> (\<exists>ok. trace fs' = EvClose (filePointer lw) ok # trace fs \<and> (ok \<longleftrightarrow> err = None))
         \<and> files fs' = files fs"
proof -
  obtain e f where fc: "fileClose (filePath lw) (filePointer lw) fs = (e, f)"
    by (cases "fileClose (filePath lw) (filePointer lw) fs") auto
  from fileClose_effect[OF fc] assms fc show ?thesis
    by (auto simp: closeLogFile_def)
qed

lemma renameLogFile_effect:
  assumes "renameLogFile lw fs = (err, lw', fs')"
  shows "lw' = lw \<and> (\<exists>new ok. trace fs' = EvRename (filePath lw) new ok # trace fs
                         \<and> (ok \<longleftrightarrow> err = None))"
proof -
  let ?fs1 = "fs\<lparr>clock := Suc (clock fs)\<rparr>"
  let ?new = "filepath_Join (directory lw)
                (baseNamePrefix lw @ ''.'' @ timeFormatter lw (clock fs) @ ''.log'')"
  obtain e f where fr: "fileRename (filePath lw) ?new ?fs1 = (e, f)"
    by (cases "fileRename (filePath lw) ?new ?fs1") auto
  from fileRename_effect[OF fr] assms fr show ?thesis
    by (auto simp: renameLogFile_def time_Now_def Let_def)
qed

lemma createLogFile_effect:
  assumes "createLogFile lw fs = (err, lw', fs')"
  shows "(\<exists>fp. lw' = lw\<lparr>filePointer := fp\<rparr> \<and> (err = None \<longrightarrow> fp = Some (filePath lw))
               \<and> (err \<noteq> None \<longrightarrow> fp = None))
         \<and> (\<exists>ok. trace fs' = EvOpen (filePath lw) ok # trace fs \<and> (ok \<longleftrightarrow> err = None))
         \<and> (err = None \<longrightarrow> disk fs' (filePath lw) = [])"
proof -
  obtain fp e f where fo: "fileOpen (filePath lw) (fileMode lw) fs = ((fp, e), f)"
    by (cases "fileOpen (filePath lw) (fileMode lw) fs") auto
  from fileOpen_effect[OF fo] assms fo show ?thesis
    by (auto simp: createLogFile_def)
qed

lemma rotate_effect:
  assumes "rotate lw fs = (err, lw', fs')"
  shows "(\<exists>fp. lw' = lw\<lparr>filePointer := fp, writtenBytes := 0\<rparr>
               \<and> (err = None \<longrightarrow> fp = Some (filePath lw)) \<and> (err \<noteq> None \<longrightarrow> fp = None))
         \<and> (\<exists>evs. trace fs' = evs @ trace fs \<and> rotation_steps lw err evs)
         \<and> (err = None \<longrightarrow> disk fs' (filePath lw) = [])"
proof -
  obtain e1 lw1 fs1 where c: "closeLogFile lw fs = (e1, lw1, fs1)"
    by (cases "closeLogFile lw fs") auto
  note ce = closeLogFile_effect[OF c]
  show ?thesis
  proof (cases e1)
    case (Some e)
    with assms c ce show ?thesis
      by (auto simp: rotate_def rotation_steps_def)
  next
    case None
    obtain e2 lw2 fs2 where r: "renameLogFile lw1 fs1 = (e2, lw2, fs2)"
      by (cases "renameLogFile lw1 fs1") auto
    note re = renameLogFile_effect[OF r]
    show ?thesis
    proof (cases e2)
      case (Some e)
      with assms c ce r re None show ?thesis
        by (auto simp: rotate_def rotation_steps_def)
    next
      case n2: None
      have cr: "createLogFile lw2 fs2 = (err, lw', fs')"
        using assms c r None n2 by (simp add: rotate_def)
      note oe = createLogFile_effect[OF cr]
      from ce re oe None n2 show ?thesis
        by (cases err) (auto simp: rotation_steps_def)
    qed
  qed
qed


lemma flush_write_effect:
  assumes rng: "0 \<le> index" "index \<le> int (length (buf lw))"
      and ol: "olen + dlen = int (length (buf lw))" "0 \<le> olen" "0 \<le> dlen"
  shows "\<exists>n err lw' fs' c ok.
           flush_write lw fs olen dlen index = Returns ((n, err), lw', fs')
         \<and> trace fs' = EvWrite (filePointer lw) c ok # trace fs
         \<and> prefix c (take (nat index) (buf lw))
         \<and> (\<forall>h. filePointer lw = Some h \<longrightarrow> disk fs' h = disk fs h @ c)
         \<and> writtenBytes lw' = writtenBytes lw + int (length c)
         \<and> same_config lw lw'
         \<and> (err = None \<longrightarrow> n = dlen \<and> c = take (nat index) (buf lw) \<and> filePointer lw \<noteq> None
               \<and> buf lw' = drop (nat index) (buf lw)
               \<and> indexOfFinalNewline lw' = indexOfFinalNewline lw - index)
         \<and> (err \<noteq> None \<longrightarrow> n = max 0 (int (length c) - olen)
               \<and> buf lw' = take (nat (olen - int (length c))) (drop (length c) (buf lw))
               \<and> indexOfFinalNewline lw' = LastIndexByte (buf lw') LF)"
proof -
  let ?b = "take (nat index) (buf lw)"
  obtain nw0 err0 fs1 where w: "fp_Write (filePointer lw) fs ?b = ((nw0, err0), fs1)"
    by (cases "fp_Write (filePointer lw) fs ?b") auto
  from fp_Write_effect[OF w] obtain c ok where
    c: "trace fs1 = EvWrite (filePointer lw) c ok # trace fs" "prefix c ?b" "nw0 = int (length c)"
       "err0 = None \<longrightarrow> c = ?b \<and> filePointer lw \<noteq> None"
       "\<forall>h. filePointer lw = Some h \<longrightarrow> disk fs1 h = disk fs h @ c"
    by blast
  have lc: "length c \<le> nat index" using c(2) rng by (auto dest: prefix_length_le)
  have nw: "0 \<le> nw0" "nw0 \<le> index" using c(3) lc rng by auto
  have full: "err0 = None \<Longrightarrow> nw0 = index" using c(3,4) rng by auto
  show ?thesis
  proof (cases "nw0 = 0")
    case True
    then have c0: "c = []" using c(3) by simp
    show ?thesis
    proof (cases err0)
      case None
      with True full have "index = 0" by simp
      with None True c0 c w rng show ?thesis
        by (simp add: flush_write_def same_config_def)
    next
      case (Some e)
      with True c0 c w rng ol show ?thesis
        by (simp add: flush_write_def Let_def same_config_def)
    qed
  next
    case False
    then have pos: "0 < nw0" using nw by simp
    have nn: "nat nw0 = length c" using c(3) by simp
    show ?thesis
    proof (cases err0)
      case None
      with full have "nw0 = index" by simp
      with None pos c w rng nn show ?thesis
        by (simp add: flush_write_def Let_def same_config_def)
    next
      case (Some e)
      show ?thesis
      proof (cases "nw0 - olen < 0")
        case True
        have "olen - nw0 \<le> int (length (buf lw)) - nw0" using ol by simp
        with True Some pos c w rng nn nw ol show ?thesis
          by (simp add: flush_write_def Let_def max_def same_config_def)
      next
        case False
        with Some pos c w rng nn nw ol show ?thesis
          by (simp add: flush_write_def Let_def max_def same_config_def)
      qed
    qed
  qed
qed

lemma closeLogFile_nil:
  "filePointer lw = None \<Longrightarrow>
   closeLogFile lw fs =
     (Some (PathError ''close'' (filePath lw) ErrInvalid),
      lw\<lparr>filePointer := None, writtenBytes := 0\<rparr>,
      log_event (EvClose None False) fs)"
  by (simp add: closeLogFile_def fileClose_def fp_Close_def)

lemma Close_post:
  "Close lw fs = (e, lw1, fs1) \<Longrightarrow>
   buf lw1 = [] \<and> filePointer lw1 = None \<and> indexOfFinalNewline lw1 = - 1 \<and> writtenBytes lw1 = 0
   \<and> filePath lw1 = filePath lw"
  by (auto simp: Close_def closeLogFile_def split: prod.splits if_splits)



section \<open>Claims about logWriter.go\<close>

text \<open>
  C9. Close is idempotent with respect to file content. After a first Close the buffer is
  empty and the handle is nil; a second Close makes no write call, leaves every file as it
  is, changes nothing in the writer, and returns the closed-state error of os.go's
  fileClose: a *PathError for "close" on the active path, wrapping os.ErrInvalid.
\<close>

theorem Close_twice_writes_nothing:
  "case Close lw fs of (e1, lw1, fs1) \<Rightarrow>
     (case Close lw1 fs1 of (e2, lw2, fs2) \<Rightarrow>
        buf lw1 = [] \<and> filePointer lw1 = None
        \<and> e2 = Some (PathError ''close'' (filePath lw) ErrInvalid)
        \<and> files fs2 = files fs1
        \<and> trace fs2 = EvClose None False # trace fs1
        \<and> bytes_written (trace fs2) = bytes_written (trace fs1)
        \<and> faults fs2 = faults fs1
        \<and> lw2 = lw1)"
proof -
  obtain e1 lw1 fs1 where c1: "Close lw fs = (e1, lw1, fs1)" by (cases "Close lw fs") auto
  from Close_post[OF c1] have p: "buf lw1 = []" "filePointer lw1 = None"
    "indexOfFinalNewline lw1 = - 1" "writtenBytes lw1 = 0" "filePath lw1 = filePath lw" by auto
  have "Close lw1 fs1 =
          (Some (PathError ''close'' (filePath lw) ErrInvalid), lw1,
           log_event (EvClose None False) fs1)"
    using p by (simp add: Close_def closeLogFile_nil)
  then show ?thesis using c1 p by (simp add: log_event_def)
qed

lemma rotation_steps_nonempty: "rotation_steps lw err evs \<Longrightarrow> evs \<noteq> []"
  by (auto simp: rotation_steps_def)


lemma flush_unfold:
  "flush lw fs olen dlen index =
     (if writtenBytes lw + index > maxBytes lw \<or> index > maxBytes lw
      then (case rotate lw fs of
              (Some e, lw1, fs1) \<Rightarrow> Returns ((0, Some e), lw1, fs1)
            | (None, lw1, fs1) \<Rightarrow> flush_write lw1 fs1 olen dlen index)
      else flush_write lw fs olen dlen index)"
  by (simp add: flush_def flush_rotate_def Let_def)

lemma rotate_fields:
  assumes "rotate lw fs = (err, lw1, fs1)"
  shows "writtenBytes lw1 = 0" "buf lw1 = buf lw" "maxBytes lw1 = maxBytes lw"
    "flushThreshold lw1 = flushThreshold lw" "filePath lw1 = filePath lw"
    "indexOfFinalNewline lw1 = indexOfFinalNewline lw"
    "err = None \<Longrightarrow> filePointer lw1 = Some (filePath lw)"
    "err \<noteq> None \<Longrightarrow> filePointer lw1 = None"
  using rotate_effect[OF assms] by auto

text \<open>
  C6. A buffered flush of \<open>index\<close> bytes rotates before it writes exactly when
  \<open>writtenBytes + index > maxBytes\<close> or \<open>index > maxBytes\<close>. The events of the call
  are the events \<open>rs\<close> of the rotation followed in time by the write \<open>ws\<close>; after the
  rotation \<open>writtenBytes\<close> is 0, so that the write which follows counts from 0; without
  rotation there is no close, rename or open event and the count continues.
\<close>

theorem flush_rotates_exactly_when_needed:
  assumes rng: "0 \<le> index" "index \<le> int (length (buf lw))"
      and ol: "olen + dlen = int (length (buf lw))" "0 \<le> olen" "0 \<le> dlen"
  shows "\<exists>r lw' fs' ws rs.
           flush lw fs olen dlen index = Returns (r, lw', fs')
         \<and> trace fs' = ws @ rs @ trace fs
         \<and> (if writtenBytes lw + index > maxBytes lw \<or> index > maxBytes lw
            then (\<exists>err1 lw1 fs1.
                    rotate lw fs = (err1, lw1, fs1) \<and> trace fs1 = rs @ trace fs
                  \<and> rotation_steps lw err1 rs \<and> writtenBytes lw1 = 0
                  \<and> (case err1 of
                        Some e \<Rightarrow> ws = [] \<and> r = (0, Some e) \<and> lw' = lw1
                      | None \<Rightarrow>
                          (\<exists>c ok. ws = [EvWrite (Some (filePath lw)) c ok]
                                 \<and> writtenBytes lw' = int (length c))))
            else rs = []
               \<and> (\<exists>c ok. ws = [EvWrite (filePointer lw) c ok]
                          \<and> writtenBytes lw' = writtenBytes lw + int (length c)))"
proof (cases "writtenBytes lw + index > maxBytes lw \<or> index > maxBytes lw")
  case True
  obtain err1 lw1 fs1 where r: "rotate lw fs = (err1, lw1, fs1)"
    by (cases "rotate lw fs") auto
  from rotate_effect[OF r] obtain evs where
    ev: "trace fs1 = evs @ trace fs" "rotation_steps lw err1 evs" by auto
  note rf = rotate_fields[OF r]
  show ?thesis
  proof (cases err1)
    case (Some e)
    have f: "flush lw fs olen dlen index = Returns ((0, Some e), lw1, fs1)"
      using True r Some by (simp add: flush_unfold)
    show ?thesis
      apply (rule exI[of _ "(0, Some e)"], rule exI[of _ lw1], rule exI[of _ fs1])
      apply (rule exI[of _ "[]"], rule exI[of _ evs])
      using True f r ev rf(1) Some by simp
  next
    case None
    have f: "flush lw fs olen dlen index = flush_write lw1 fs1 olen dlen index"
      using True r None by (simp add: flush_unfold)
    have len1: "index \<le> int (length (buf lw1))" "olen + dlen = int (length (buf lw1))"
      using rng ol rf(2) by simp_all
    from flush_write_effect[OF rng(1) len1(1) len1(2) ol(2) ol(3), of fs1]
    obtain n err lw' fs' c ok where
      w: "flush_write lw1 fs1 olen dlen index = Returns ((n, err), lw', fs')"
         "trace fs' = EvWrite (filePointer lw1) c ok # trace fs1"
         "writtenBytes lw' = writtenBytes lw1 + int (length c)"
      by blast
    have fp: "filePointer lw1 = Some (filePath lw)" using rf(7) None by simp
    show ?thesis
      apply (rule exI[of _ "(n, err)"], rule exI[of _ lw'], rule exI[of _ fs'])
      apply (rule exI[of _ "[EvWrite (Some (filePath lw)) c ok]"], rule exI[of _ evs])
      using True f r ev rf(1) None w fp by simp
  qed
next
  case False
  have f: "flush lw fs olen dlen index = flush_write lw fs olen dlen index"
    using False by (simp add: flush_unfold)
  from flush_write_effect[OF rng ol, of fs]
  obtain n err lw' fs' c ok where
    w: "flush_write lw fs olen dlen index = Returns ((n, err), lw', fs')"
       "trace fs' = EvWrite (filePointer lw) c ok # trace fs"
       "writtenBytes lw' = writtenBytes lw + int (length c)"
    by blast
  show ?thesis
    apply (rule exI[of _ "(n, err)"], rule exI[of _ lw'], rule exI[of _ fs'])
    apply (rule exI[of _ "[EvWrite (filePointer lw) c ok]"], rule exI[of _ "[]"])
    using False f w by simp
qed

theorem flush_rotates_exactly_when_needed_witness:
  "(0::int) \<le> 2 \<and> 2 \<le> int (length (buf (example_lw 1 1 (''a'' @ [LF]))))
   \<and> (0::int) + 2 = int (length (buf (example_lw 1 1 (''a'' @ [LF]))))
   \<and> (\<exists>r lw' fs'. flush (example_lw 1 1 (''a'' @ [LF])) (example_fs []) 0 2 2
                      = Returns (r, lw', fs'))"
proof -
  have h: "(0::int) \<le> 2" "2 \<le> int (length (buf (example_lw 1 1 (''a'' @ [LF]))))"
    "(0::int) + 2 = int (length (buf (example_lw 1 1 (''a'' @ [LF]))))" "(0::int) \<le> 0"
    by (simp_all add: example_lw_def)
  from flush_rotates_exactly_when_needed[OF h(1) h(2) h(3) h(4) h(1), of "example_fs []"]
  obtain r lw' fs' where
    "flush (example_lw 1 1 (''a'' @ [LF])) (example_fs []) 0 2 2 = Returns (r, lw', fs')"
    by blast
  then show ?thesis using h by blast
qed

lemma flush_effect:
  assumes rng: "0 \<le> index" "index \<le> int (length (buf lw))"
      and ol: "olen + dlen = int (length (buf lw))" "0 \<le> olen" "0 \<le> dlen"
  obtains (rotfail) e lw1 fs1 where
      "writtenBytes lw + index > maxBytes lw \<or> index > maxBytes lw"
      "rotate lw fs = (Some e, lw1, fs1)"
      "flush lw fs olen dlen index = Returns ((0, Some e), lw1, fs1)"
  | (written) lw1 fs1 n err lw' fs' c ok where
      "(if writtenBytes lw + index > maxBytes lw \<or> index > maxBytes lw
        then rotate lw fs = (None, lw1, fs1) else lw1 = lw \<and> fs1 = fs)"
      "flush lw fs olen dlen index = Returns ((n, err), lw', fs')"
      "trace fs' = EvWrite (filePointer lw1) c ok # trace fs1"
      "prefix c (take (nat index) (buf lw))"
      "\<forall>h. filePointer lw1 = Some h \<longrightarrow> disk fs' h = disk fs1 h @ c"
      "writtenBytes lw' = writtenBytes lw1 + int (length c)"
      "same_config lw1 lw'"
      "err = None \<longrightarrow> n = dlen \<and> c = take (nat index) (buf lw) \<and> filePointer lw1 \<noteq> None
               \<and> buf lw' = drop (nat index) (buf lw)
               \<and> indexOfFinalNewline lw' = indexOfFinalNewline lw - index"
      "err \<noteq> None \<longrightarrow> n = max 0 (int (length c) - olen)
               \<and> buf lw' = take (nat (olen - int (length c))) (drop (length c) (buf lw))
               \<and> indexOfFinalNewline lw' = LastIndexByte (buf lw') LF"
proof (cases "writtenBytes lw + index > maxBytes lw \<or> index > maxBytes lw")
  case True
  obtain err1 lw1 fs1 where r: "rotate lw fs = (err1, lw1, fs1)"
    by (cases "rotate lw fs") auto
  note rf = rotate_fields[OF r]
  show ?thesis
  proof (cases err1)
    case (Some e)
    have "flush lw fs olen dlen index = Returns ((0, Some e), lw1, fs1)"
      using True r Some by (simp add: flush_unfold)
    with True r Some show ?thesis using rotfail by blast
  next
    case None
    have f: "flush lw fs olen dlen index = flush_write lw1 fs1 olen dlen index"
      using True r None by (simp add: flush_unfold)
    have len1: "index \<le> int (length (buf lw1))" "olen + dlen = int (length (buf lw1))"
      using rng ol rf(2) by simp_all
    from flush_write_effect[OF rng(1) len1(1) len1(2) ol(2) ol(3), of fs1]
    obtain n err lw' fs' c ok where
      w: "flush_write lw1 fs1 olen dlen index = Returns ((n, err), lw', fs')"
         "trace fs' = EvWrite (filePointer lw1) c ok # trace fs1"
         "prefix c (take (nat index) (buf lw1))"
         "\<forall>h. filePointer lw1 = Some h \<longrightarrow> disk fs' h = disk fs1 h @ c"
         "writtenBytes lw' = writtenBytes lw1 + int (length c)"
         "same_config lw1 lw'"
         "err = None \<longrightarrow> n = dlen \<and> c = take (nat index) (buf lw1) \<and> filePointer lw1 \<noteq> None
               \<and> buf lw' = drop (nat index) (buf lw1)
               \<and> indexOfFinalNewline lw' = indexOfFinalNewline lw1 - index"
         "err \<noteq> None \<longrightarrow> n = max 0 (int (length c) - olen)
               \<and> buf lw' = take (nat (olen - int (length c))) (drop (length c) (buf lw1))
               \<and> indexOfFinalNewline lw' = LastIndexByte (buf lw') LF"
      by blast
    have c1: "(if writtenBytes lw + index > maxBytes lw \<or> index > maxBytes lw
        then rotate lw fs = (None, lw1, fs1) else lw1 = lw \<and> fs1 = fs)"
      using True r None by simp
    show ?thesis
      using written[OF c1, of n err lw' fs' c ok] w f rf(2) rf(6) by simp
  qed
next
  case False
  have f: "flush lw fs olen dlen index = flush_write lw fs olen dlen index"
    using False by (simp add: flush_unfold)
  from flush_write_effect[OF rng ol, of fs]
  obtain n err lw' fs' c ok where
    w: "flush_write lw fs olen dlen index = Returns ((n, err), lw', fs')"
       "trace fs' = EvWrite (filePointer lw) c ok # trace fs"
       "prefix c (take (nat index) (buf lw))"
       "\<forall>h. filePointer lw = Some h \<longrightarrow> disk fs' h = disk fs h @ c"
       "writtenBytes lw' = writtenBytes lw + int (length c)"
       "same_config lw lw'"
       "err = None \<longrightarrow> n = dlen \<and> c = take (nat index) (buf lw) \<and> filePointer lw \<noteq> None
             \<and> buf lw' = drop (nat index) (buf lw)
             \<and> indexOfFinalNewline lw' = indexOfFinalNewline lw - index"
       "err \<noteq> None \<longrightarrow> n = max 0 (int (length c) - olen)
             \<and> buf lw' = take (nat (olen - int (length c))) (drop (length c) (buf lw))
             \<and> indexOfFinalNewline lw' = LastIndexByte (buf lw') LF"
    by blast
  have c1: "(if writtenBytes lw + index > maxBytes lw \<or> index > maxBytes lw
        then rotate lw fs = (None, lw, fs) else lw = lw \<and> fs = fs)"
    using False by simp
  show ?thesis
    using written[OF c1, of n err lw' fs' c ok] w f by simp
qed

lemma Write_buffered_unfold:
  assumes "flushThreshold lw \<noteq> 0" "index_ok lw"
  shows "Write lw fs p =
     (let b' = buf lw @ p; i' = LastIndexByte b' LF;
          lw2 = lw\<lparr>buf := b', indexOfFinalNewline := i'\<rparr>
      in if int (length b') \<le> flushThreshold lw \<or> i' < 0
         then Returns ((int (length p), None), lw2, fs)
         else flush lw2 fs (int (length (buf lw))) (int (length p)) (i' + 1))"
proof (cases "0 \<le> LastIndexByte p LF")
  case True
  then show ?thesis using assms
    by (simp add: Write_def Let_def LastIndexByte_append index_ok_def)
next
  case False
  have eq: "lw\<lparr>buf := buf lw @ p, indexOfFinalNewline := LastIndexByte (buf lw) LF\<rparr>
        = lw\<lparr>buf := buf lw @ p\<rparr>"
    using assms(2) by (simp add: index_ok_def)
  show ?thesis using assms False
    by (simp add: Write_def Let_def LastIndexByte_append index_ok_def eq)
qed



lemma example_Write_fault:
  "Write (example_lw 1 100 []) (example_fs [Fault 1 (Errno 5)]) (''ab'' @ [LF])
     = Returns ((1, Some (Errno 5)),
         (example_lw 1 100 [])\<lparr>writtenBytes := 1, buf := [], indexOfFinalNewline := - 1\<rparr>,
         \<lparr>files = (\<lambda>p. None)(''logs/app.log'' \<mapsto> ''a''),
          trace = [EvWrite (Some ''logs/app.log'') ''a'' False, EvOpen ''logs/app.log'' True],
          faults = [], clock = 0\<rparr>)"
  by (simp add: Write_def flush_def flush_rotate_def flush_write_def fp_Write_def
        next_fault_def log_event_def append_file_def example_lw_def example_fs_def Let_def)

text \<open>
  C3, as it is written, fails. With a threshold of 1 and an empty buffer, Write("ab\n")
  flushes three bytes; the file takes one byte and fails. The call reports 1 byte, and the
  buffer is emptied: the two bytes that were not written are not retained.
\<close>

theorem Write_error_drops_unwritten_counterexample:
  "\<not> retains_unwritten (example_lw 1 100 []) (example_fs [Fault 1 (Errno 5)]) (''ab'' @ [LF])"
  unfolding retains_unwritten_def by (subst example_Write_fault) simp

text \<open>
  C3, amended. When the file write of a flush fails or is partial (the call returns an
  error and its last event is a write of the bytes \<open>c\<close>), \<open>c\<close> is a prefix of the pending
  buffer with \<open>p\<close> appended; the call reports exactly the number of bytes of \<open>p\<close> among
  them, never more, and these are the first bytes of \<open>p\<close>; the buffer retains only the
  unwritten rest of the bytes pending from earlier calls, so that the bytes of the current
  call are removed from it, written or not; and the index is the result of scanning the
  retained buffer for its last terminator.
\<close>

theorem Write_failed_flush_write:
  assumes thr: "flushThreshold lw \<noteq> 0" and iok: "index_ok lw"
      and ret: "Write lw fs p = Returns ((n, Some e), lw', fs')"
      and wr: "trace fs' = EvWrite h c ok # tr"
  shows "prefix c (buf lw @ p)
       \<and> n = max 0 (int (length c) - int (length (buf lw)))
       \<and> n \<le> int (length p)
       \<and> take (nat n) p = drop (length (buf lw)) c
       \<and> buf lw' = drop (length c) (buf lw)
       \<and> indexOfFinalNewline lw' = LastIndexByte (buf lw') LF"
proof -
  let ?b = "buf lw @ p"
  let ?i = "LastIndexByte ?b LF"
  let ?lw2 = "lw\<lparr>buf := ?b, indexOfFinalNewline := ?i\<rparr>"
  note u = Write_buffered_unfold[OF thr iok, of fs p]
  have nf: "\<not> (int (length ?b) \<le> flushThreshold lw \<or> ?i < 0)"
  proof
    assume "int (length ?b) \<le> flushThreshold lw \<or> ?i < 0"
    with u ret show False by (simp add: Let_def)
  qed
  then have i0: "0 \<le> ?i" by simp
  have w: "flush ?lw2 fs (int (length (buf lw))) (int (length p)) (?i + 1)
             = Returns ((n, Some e), lw', fs')"
    using u nf ret by (simp add: Let_def)
  have rng: "0 \<le> ?i + 1" "?i + 1 \<le> int (length (buf ?lw2))"
    using i0 LastIndexByte_range[of ?b LF] by simp_all
  have ol: "int (length (buf lw)) + int (length p) = int (length (buf ?lw2))"
    "0 \<le> int (length (buf lw))" "0 \<le> int (length p)" by simp_all
  show ?thesis
  proof (rule flush_effect[OF rng ol, of fs], goal_cases)
    case rotfail: (1 e1 lw1 fs1)
    from rotfail(3) w have "fs1 = fs'" by simp
    moreover from rotate_effect[OF rotfail(2)] obtain evs where
      "trace fs1 = evs @ trace fs" "rotation_steps ?lw2 (Some e1) evs" by auto
    ultimately show ?case using wr by (auto simp: rotation_steps_def)
  next
    case written: (2 lw1 fs1 n1 err1 lw1' fs1' c1 ok1)
    from written(2) w have eq: "n1 = n" "err1 = Some e" "lw1' = lw'" "fs1' = fs'" by simp_all
    from written(3) wr eq have cc: "c1 = c" by simp
    have pc: "prefix c (take (nat (?i + 1)) ?b)" using written(4) cc by simp
    then have pb: "prefix c ?b" by (meson prefix_order.trans take_is_prefix)
    then obtain z where z: "?b = c @ z" by (auto simp: prefix_def)
    have lc: "length c \<le> length (buf lw) + length p"
      using pb by (auto dest: prefix_length_le)
    from written(9) eq cc have
      n: "n = max 0 (int (length c) - int (length (buf lw)))"
      and b: "buf lw' = take (nat (int (length (buf lw)) - int (length c))) (drop (length c) ?b)"
      and ix: "indexOfFinalNewline lw' = LastIndexByte (buf lw') LF"
      by simp_all
    have b': "buf lw' = drop (length c) (buf lw)"
    proof (cases "length c \<le> length (buf lw)")
      case True
      then have "nat (int (length (buf lw)) - int (length c)) = length (buf lw) - length c"
        by simp
      with b True show ?thesis by simp
    next
      case False
      with b show ?thesis by simp
    qed
    have tk: "take (nat n) p = drop (length (buf lw)) c"
    proof (cases "length c \<le> length (buf lw)")
      case True
      with n show ?thesis by simp
    next
      case False
      then have nn: "nat n = length c - length (buf lw)" using n by simp
      have e1: "take (length c) ?b = c" using z by simp
      have e2: "drop (length (buf lw)) (take (length c) ?b)
                  = take (length c - length (buf lw)) (drop (length (buf lw)) ?b)"
        by (rule drop_take)
      have e3: "drop (length (buf lw)) ?b = p" by simp
      show ?thesis using e1 e2 e3 nn by metis
    qed
    show ?case using pb n lc b' ix tk by simp
  qed
qed

theorem Write_failed_flush_write_witness:
  "flushThreshold (example_lw 1 100 []) \<noteq> 0 \<and> index_ok (example_lw 1 100 [])
   \<and> (\<exists>lw' fs'.
         Write (example_lw 1 100 []) (example_fs [Fault 1 (Errno 5)]) (''ab'' @ [LF])
           = Returns ((1, Some (Errno 5)), lw', fs')
       \<and> trace fs' = EvWrite (Some ''logs/app.log'') ''a'' False # [EvOpen ''logs/app.log'' True]
       \<and> buf lw' = drop (length ''a'') (buf (example_lw 1 100 []))
       \<and> take (nat 1) (''ab'' @ [LF]) = drop (length (buf (example_lw 1 100 []))) ''a'')"
proof -
  let ?L = "example_lw 1 100 []"
  let ?L' = "?L\<lparr>writtenBytes := 1, buf := [], indexOfFinalNewline := - 1\<rparr>"
  let ?F' = "\<lparr>files = (\<lambda>p. None)(''logs/app.log'' \<mapsto> ''a''),
          trace = [EvWrite (Some ''logs/app.log'') ''a'' False, EvOpen ''logs/app.log'' True],
          faults = [], clock = 0\<rparr>"
  have h1: "flushThreshold ?L \<noteq> 0" by (simp add: example_lw_def)
  have h2: "index_ok ?L" by (simp add: index_ok_def example_lw_def)
  have ret: "Write ?L (example_fs [Fault 1 (Errno 5)]) (''ab'' @ [LF])
               = Returns ((1, Some (Errno 5)), ?L', ?F')"
    by (rule example_Write_fault)
  have wr: "trace ?F'
              = EvWrite (Some ''logs/app.log'') ''a'' False # [EvOpen ''logs/app.log'' True]"
    by simp
  from Write_failed_flush_write[OF h1 h2 ret wr]
  have k: "buf ?L' = drop (length ''a'') (buf ?L)"
    "take (nat 1) (''ab'' @ [LF]) = drop (length (buf ?L)) ''a''"
    by blast+
  show ?thesis using h1 h2 ret wr k by blast
qed

lemma fp_Write_ok:
  "faults fs = [] \<Longrightarrow>
   fp_Write (Some h) fs b
     = ((int (length b), None), log_event (EvWrite (Some h) b True) (append_file h b fs))"
  by (simp add: fp_Write_def next_fault_def)

lemma flush_write_ok:
  assumes "faults fs = []" "filePointer lw = Some h" "0 < index"
    "index \<le> int (length (buf lw))"
  shows "flush_write lw fs olen dlen index
     = Returns ((dlen, None),
         lw\<lparr>writtenBytes := writtenBytes lw + index, buf := drop (nat index) (buf lw),
            indexOfFinalNewline := indexOfFinalNewline lw - index\<rparr>,
         log_event (EvWrite (Some h) (take (nat index) (buf lw)) True)
           (append_file h (take (nat index) (buf lw)) fs))"
proof -
  have l: "int (length (take (nat index) (buf lw))) = index" using assms(3,4) by simp
  show ?thesis using assms l
    by (simp add: flush_write_def fp_Write_ok Let_def del: length_take)
qed

lemma Write_steady:
  assumes st: "steady lw fs d"
      and room: "int (length d) + int (length p) \<le> maxBytes lw"
  shows "\<exists>lw' fs'. Write lw fs p = Returns ((int (length p), None), lw', fs')
           \<and> steady lw' fs' (d @ p) \<and> same_config lw lw'
           \<and> filter is_rotation_event (trace fs') = filter is_rotation_event (trace fs)"
proof -
  from st obtain c where
    nf: "faults fs = []" and fp: "filePointer lw = Some (filePath lw)" and iok: "index_ok lw"
    and ub: "flushThreshold lw = 0 \<longrightarrow> buf lw = []"
    and fc: "files fs (filePath lw) = Some c" and dc: "d = c @ buf lw"
    and wb: "writtenBytes lw = int (length c)"
    by (auto simp: steady_def)
  show ?thesis
  proof (cases "flushThreshold lw = 0")
    case True
    with ub have be: "buf lw = []" by simp
    have nr: "\<not> writtenBytes lw + int (length p) > maxBytes lw"
      using room dc be wb by simp
    have w: "Write lw fs p = Returns ((int (length p), None),
               lw\<lparr>writtenBytes := writtenBytes lw + int (length p)\<rparr>,
               log_event (EvWrite (Some (filePath lw)) p True) (append_file (filePath lw) p fs))"
      using True nr fp nf by (simp add: Write_def fp_Write_ok)
    show ?thesis
      unfolding w using True nf fp iok be fc dc wb
      by (simp add: steady_def same_config_def index_ok_def log_event_def append_file_def)
  next
    case False
    let ?b = "buf lw @ p"
    let ?i = "LastIndexByte ?b LF"
    let ?lw2 = "lw\<lparr>buf := ?b, indexOfFinalNewline := ?i\<rparr>"
    note u = Write_buffered_unfold[OF False iok, of fs p]
    show ?thesis
    proof (cases "int (length ?b) \<le> flushThreshold lw \<or> ?i < 0")
      case True
      then have w: "Write lw fs p = Returns ((int (length p), None), ?lw2, fs)"
        using u by (simp add: Let_def)
      show ?thesis
        unfolding w using False nf fp fc dc wb
        by (simp add: steady_def same_config_def index_ok_def)
    next
      case nfl: False
      then have i0: "0 \<le> ?i" by simp
      have ir: "?i + 1 \<le> int (length ?b)" using LastIndexByte_range[of ?b LF] by simp
      have nr: "\<not> (writtenBytes ?lw2 + (?i + 1) > maxBytes ?lw2 \<or> ?i + 1 > maxBytes ?lw2)"
        using room dc wb ir by simp
      have fl: "Write lw fs p
                  = flush_write ?lw2 fs (int (length (buf lw))) (int (length p)) (?i + 1)"
        using u nfl nr by (simp add: Let_def flush_unfold)
      have fw: "flush_write ?lw2 fs (int (length (buf lw))) (int (length p)) (?i + 1)
         = Returns ((int (length p), None),
             ?lw2\<lparr>writtenBytes := writtenBytes ?lw2 + (?i + 1),
                   buf := drop (nat (?i + 1)) (buf ?lw2),
                   indexOfFinalNewline := indexOfFinalNewline ?lw2 - (?i + 1)\<rparr>,
             log_event (EvWrite (Some (filePath lw)) (take (nat (?i + 1)) (buf ?lw2)) True)
               (append_file (filePath lw) (take (nat (?i + 1)) (buf ?lw2)) fs))"
        by (rule flush_write_ok) (use nf fp i0 ir in simp_all)
      have lt: "int (length (take (nat (?i + 1)) ?b)) = ?i + 1" using i0 ir by simp
      have dr: "LastIndexByte (drop (nat (?i + 1)) ?b) LF = - 1"
        by (rule LastIndexByte_drop)
      have sp: "take (nat (?i + 1)) ?b @ drop (nat (?i + 1)) ?b = ?b"
        by (rule append_take_drop_id)
      have "steady (?lw2\<lparr>writtenBytes := writtenBytes ?lw2 + (?i + 1),
                   buf := drop (nat (?i + 1)) (buf ?lw2),
                   indexOfFinalNewline := indexOfFinalNewline ?lw2 - (?i + 1)\<rparr>)
              (log_event (EvWrite (Some (filePath lw)) (take (nat (?i + 1)) (buf ?lw2)) True)
               (append_file (filePath lw) (take (nat (?i + 1)) (buf ?lw2)) fs))
              (d @ p)"
        unfolding steady_def index_ok_def log_event_def append_file_def
        using False nf fp fc dc wb lt dr sp
        by (simp del: length_take take_append drop_append)
      then show ?thesis
        unfolding fl fw using fp
        by (simp add: same_config_def log_event_def append_file_def)
    qed
  qed
qed

lemma same_config_trans: "same_config a b \<Longrightarrow> same_config b c \<Longrightarrow> same_config a c"
  by (simp add: same_config_def)

lemma sum_lengths_nonneg: "0 \<le> (\<Sum>p\<leftarrow>ps. int (length p))"
  by (induction ps) auto

lemma Writes_steady:
  assumes "steady lw fs d"
      and "int (length d) + (\<Sum>p\<leftarrow>ps. int (length p)) \<le> maxBytes lw"
  shows "\<exists>lw' fs'. Writes lw fs ps = Returns (map (\<lambda>p. (int (length p), None)) ps, lw', fs')
           \<and> steady lw' fs' (d @ concat ps) \<and> same_config lw lw'
           \<and> filter is_rotation_event (trace fs') = filter is_rotation_event (trace fs)"
  using assms
proof (induction ps arbitrary: lw fs d)
  case Nil
  then show ?case by (simp add: same_config_def)
next
  case (Cons p ps)
  have r1: "int (length d) + int (length p) \<le> maxBytes lw"
    using Cons.prems(2) sum_lengths_nonneg[of ps] by simp
  from Write_steady[OF Cons.prems(1) r1] obtain lw1 fs1 where
    w: "Write lw fs p = Returns ((int (length p), None), lw1, fs1)"
    and s1: "steady lw1 fs1 (d @ p)" and c1: "same_config lw lw1"
    and t1: "filter is_rotation_event (trace fs1) = filter is_rotation_event (trace fs)"
    by blast
  have m1: "maxBytes lw1 = maxBytes lw" using c1 by (simp add: same_config_def)
  have r2: "int (length (d @ p)) + (\<Sum>p\<leftarrow>ps. int (length p)) \<le> maxBytes lw1"
    using Cons.prems(2) m1 by simp
  from Cons.IH[OF s1 r2] obtain lw2 fs2 where
    ws: "Writes lw1 fs1 ps = Returns (map (\<lambda>p. (int (length p), None)) ps, lw2, fs2)"
    and s2: "steady lw2 fs2 ((d @ p) @ concat ps)" and c2: "same_config lw1 lw2"
    and t2: "filter is_rotation_event (trace fs2) = filter is_rotation_event (trace fs1)"
    by blast
  have "Writes lw fs (p # ps)
          = Returns (map (\<lambda>p. (int (length p), None)) (p # ps), lw2, fs2)"
    using w ws by simp
  moreover have "steady lw2 fs2 (d @ concat (p # ps))" using s2 by simp
  moreover have "same_config lw lw2" using c1 c2 by (rule same_config_trans)
  moreover have "filter is_rotation_event (trace fs2) = filter is_rotation_event (trace fs)"
    using t1 t2 by simp
  ultimately show ?case by blast
qed

lemma Close_steady:
  assumes "steady lw fs d"
  shows "\<exists>lw' fs'. Close lw fs = (None, lw', fs')
           \<and> files fs' (filePath lw) = Some d
           \<and> filter is_rotation_event (trace fs')
               = EvClose (Some (filePath lw)) True # filter is_rotation_event (trace fs)"
proof -
  from assms obtain c where
    nf: "faults fs = []" and fp: "filePointer lw = Some (filePath lw)"
    and fc: "files fs (filePath lw) = Some c" and dc: "d = c @ buf lw"
    by (auto simp: steady_def)
  show ?thesis
  proof (cases "buf lw = []")
    case True
    then show ?thesis using nf fp fc dc
      by (simp add: Close_def closeLogFile_def fileClose_def fp_Close_def next_fault_def
            log_event_def)
  next
    case False
    then show ?thesis using nf fp fc dc
      by (simp add: Close_def closeLogFile_def fileClose_def fp_Close_def next_fault_def
            log_event_def fp_Write_ok append_file_def)
  qed
qed

lemma createLogFile_ok:
  "faults fs = [] \<Longrightarrow>
   createLogFile lw fs =
     (None, lw\<lparr>filePointer := Some (filePath lw)\<rparr>,
      log_event (EvOpen (filePath lw) True) (fs\<lparr>files := (files fs)(filePath lw \<mapsto> [])\<rparr>))"
  by (simp add: createLogFile_def fileOpen_def os_OpenFile_def next_fault_def)

lemma NewLogWriter_steady:
  assumes nf: "faults fs = []" and new: "NewLogWriter pe cfg fs = (Inr lw0, fs0)"
  shows "steady lw0 fs0 [] \<and> trace fs0 = EvOpen (filePath lw0) True # trace fs
       \<and> maxBytes lw0 = (if MaxBytes cfg < 1 then defaultMaxBytes else MaxBytes cfg)"
proof -
  have nb: "\<not> BufferBytes cfg < 0"
    using new by (auto simp: NewLogWriter_def)
  obtain dir where d: "(if Directory cfg = [] then Getwd pe else Inr (Directory cfg)) = Inr dir"
    using new nb by (cases "if Directory cfg = [] then Getwd pe else Inr (Directory cfg)")
      (auto simp: NewLogWriter_def)
  show ?thesis
    using new nb
    unfolding NewLogWriter_def d Let_def
    by (simp add: createLogFile_ok[OF nf] steady_def index_ok_def log_event_def nf
          del: LastIndexByte.simps)
      (auto simp: nf)
qed

lemma example_NewLogWriter:
  "NewLogWriter example_env example_cfg empty_fs = (Inr (example_lw 4 16 []), example_fs [])"
  by (simp add: NewLogWriter_def example_env_def example_cfg_def empty_fs_def example_lw_def
        example_fs_def createLogFile_def fileOpen_def os_OpenFile_def next_fault_def
        log_event_def filepath_Join_def defaultFileMode_def)

text \<open>
  C1. In an environment without faults, let the constructor succeed and let the slices
  of a sequence of Write calls hold fewer bytes in total than the size limit. Then every
  Write returns the length of its slice and no error, Close returns no error, the file at
  the active path holds the concatenation of the slices in order, and since the call of
  the constructor the only open, rename and close events are the constructor's open of
  the active path and the final close: one file is created and no rotation occurs.
\<close>

theorem single_file_holds_all_writes:
  assumes "faults fs = []"
      and "NewLogWriter pe cfg fs = (Inr lw0, fs0)"
      and "(\<Sum>p\<leftarrow>ps. int (length p)) < maxBytes lw0"
  shows "\<exists>lw1 fs1 lw2 fs2.
           Writes lw0 fs0 ps = Returns (map (\<lambda>p. (int (length p), None)) ps, lw1, fs1)
         \<and> Close lw1 fs1 = (None, lw2, fs2)
         \<and> files fs2 (filePath lw0) = Some (concat ps)
         \<and> filter is_rotation_event (trace fs2)
             = EvClose (Some (filePath lw0)) True # EvOpen (filePath lw0) True
                 # filter is_rotation_event (trace fs)"
proof -
  from NewLogWriter_steady[OF assms(1,2)] have
    s0: "steady lw0 fs0 []" and t0: "trace fs0 = EvOpen (filePath lw0) True # trace fs"
    by simp_all
  have room: "int (length ([]::byte list)) + (\<Sum>p\<leftarrow>ps. int (length p)) \<le> maxBytes lw0"
    using assms(3) by simp
  from Writes_steady[OF s0 room] obtain lw1 fs1 where
    ws: "Writes lw0 fs0 ps = Returns (map (\<lambda>p. (int (length p), None)) ps, lw1, fs1)"
    and s1: "steady lw1 fs1 ([] @ concat ps)" and c1: "same_config lw0 lw1"
    and t1: "filter is_rotation_event (trace fs1) = filter is_rotation_event (trace fs0)"
    by blast
  from Close_steady[OF s1] obtain lw2 fs2 where
    cl: "Close lw1 fs1 = (None, lw2, fs2)"
    and f2: "files fs2 (filePath lw1) = Some ([] @ concat ps)"
    and t2: "filter is_rotation_event (trace fs2)
               = EvClose (Some (filePath lw1)) True # filter is_rotation_event (trace fs1)"
    by blast
  have p1: "filePath lw1 = filePath lw0" using c1 by (simp add: same_config_def)
  have "files fs2 (filePath lw0) = Some (concat ps)" using f2 p1 by simp
  moreover have "filter is_rotation_event (trace fs2)
      = EvClose (Some (filePath lw0)) True # EvOpen (filePath lw0) True
          # filter is_rotation_event (trace fs)"
    using t2 t1 t0 p1 by simp
  ultimately show ?thesis using ws cl by blast
qed

theorem single_file_holds_all_writes_witness:
  "faults empty_fs = []
 \<and> NewLogWriter example_env example_cfg empty_fs = (Inr (example_lw 4 16 []), example_fs [])
 \<and> (\<Sum>p\<leftarrow>[''ab'', ''c'' @ [LF], ''de'']. int (length p)) < maxBytes (example_lw 4 16 [])
 \<and> (\<exists>lw1 fs1 lw2 fs2.
       Writes (example_lw 4 16 []) (example_fs []) [''ab'', ''c'' @ [LF], ''de'']
         = Returns ([(2, None), (2, None), (2, None)], lw1, fs1)
     \<and> Close lw1 fs1 = (None, lw2, fs2)
     \<and> files fs2 ''logs/app.log'' = Some (''abc'' @ [LF] @ ''de'')
     \<and> filter is_rotation_event (trace fs2)
         = [EvClose (Some ''logs/app.log'') True, EvOpen ''logs/app.log'' True])"
proof -
  have f: "faults empty_fs = []" by (simp add: empty_fs_def)
  have m: "(\<Sum>p\<leftarrow>[''ab'', ''c'' @ [LF], ''de'']. int (length p)) < maxBytes (example_lw 4 16 [])"
    by (simp add: example_lw_def)
  have p: "filePath (example_lw 4 16 []) = ''logs/app.log''" by (simp add: example_lw_def)
  have t: "filter is_rotation_event (trace empty_fs) = []" by (simp add: empty_fs_def)
  show ?thesis
    using single_file_holds_all_writes[OF f example_NewLogWriter m] f m example_NewLogWriter
    unfolding p t by simp
qed

lemma example_Write_rename_fails:
  "Write (example_lw 1 1 []) (example_fs [NoFault, Fault 0 (Errno 13)]) (''a'' @ [LF])
     = Returns ((0, Some (LinkError ''rename'' ''logs/app.log'' ''logs/app.0.log'' (Errno 13))),
         (example_lw 1 1 [])\<lparr>buf := ''a'' @ [LF], indexOfFinalNewline := 1, filePointer := None\<rparr>,
         \<lparr>files = (\<lambda>p. None)(''logs/app.log'' \<mapsto> []),
          trace = [EvRename ''logs/app.log'' ''logs/app.0.log'' False,
                   EvClose (Some ''logs/app.log'') True, EvOpen ''logs/app.log'' True],
          faults = [], clock = 1\<rparr>)"
  by (simp add: Write_def flush_def flush_rotate_def rotate_def closeLogFile_def fileClose_def
        fp_Close_def renameLogFile_def time_Now_def fileRename_def os_Rename_def
        nanoDateTimeFormatter_def filepath_Join_def
        next_fault_def log_event_def example_lw_def example_fs_def Let_def)

lemma example_Write_empty_flushes:
  "Write ((example_lw 1 1 [])\<lparr>buf := ''a'' @ [LF], indexOfFinalNewline := 1, filePointer := None\<rparr>)
         \<lparr>files = (\<lambda>p. None)(''logs/app.log'' \<mapsto> []),
          trace = [EvRename ''logs/app.log'' ''logs/app.0.log'' False,
                   EvClose (Some ''logs/app.log'') True, EvOpen ''logs/app.log'' True],
          faults = [], clock = 1\<rparr> []
     = Returns ((0, Some (PathError ''close'' ''logs/app.log'' ErrInvalid)),
         (example_lw 1 1 [])\<lparr>buf := ''a'' @ [LF], indexOfFinalNewline := 1, filePointer := None\<rparr>,
         \<lparr>files = (\<lambda>p. None)(''logs/app.log'' \<mapsto> []),
          trace = [EvClose None False,
                   EvRename ''logs/app.log'' ''logs/app.0.log'' False,
                   EvClose (Some ''logs/app.log'') True, EvOpen ''logs/app.log'' True],
          faults = [], clock = 1\<rparr>)"
  by (simp add: Write_def flush_def flush_rotate_def rotate_def closeLogFile_def fileClose_def
        fp_Close_def log_event_def example_lw_def Let_def)

text \<open>
  C10 fails when the rotation of a flush fails. A buffered writer with threshold 1 and
  size limit 1 receives Write("a\n"); the flush of these two bytes needs a rotation, the
  close succeeds and the rename fails. The call returns 0 and the error of the rename,
  and leaves both bytes in the buffer with the index at the terminator: the buffer is
  longer than the threshold and the index is not -1. A following Write of the empty slice
  then starts a flush, whose rotation closes the nil handle and fails.
\<close>

theorem Write_failed_rotation_leaves_flush_pending:
  "(case Write (example_lw 1 1 []) (example_fs [NoFault, Fault 0 (Errno 13)]) (''a'' @ [LF]) of
      Panics \<Rightarrow> False
    | Returns ((n, err), lw', fs') \<Rightarrow>
        n = 0
      \<and> err = Some (LinkError ''rename'' ''logs/app.log'' ''logs/app.0.log'' (Errno 13))
      \<and> buf lw' = ''a'' @ [LF] \<and> indexOfFinalNewline lw' = 1 \<and> flushThreshold lw' = 1
      \<and> \<not> flush_settled lw'
      \<and> (case Write lw' fs' [] of
            Panics \<Rightarrow> False
          | Returns ((n2, err2), lw2, fs2) \<Rightarrow>
              n2 = 0 \<and> err2 = Some (PathError ''close'' ''logs/app.log'' ErrInvalid)
            \<and> trace fs2 = EvClose None False # trace fs'))"
  by (subst example_Write_rename_fails, simp only: outcome.case prod.case,
      subst example_Write_empty_flushes)
     (simp add: flush_settled_def example_lw_def)

section \<open>Claims about the rotation of both writers\<close>

lemma closeLog_effect:
  assumes "closeLog lw fs = (err, lw', fs')"
  shows "lw' = lw\<lparr>filePointerF := None, fileSizeNow := 0\<rparr>
         \<and> (\<exists>ok. trace fs' = EvClose (filePointerF lw) ok # trace fs \<and> (ok \<longleftrightarrow> err = None))
         \<and> files fs' = files fs"
  using assms
  by (auto simp: closeLog_def fp_Close_def next_fault_def log_event_def
           split: option.splits list.splits fault.splits)

lemma renameLog_effect:
  assumes "renameLog lw fs = Returns (err, lw', fs')"
  shows "lw' = lw\<lparr>timeOfFirstWrite := []\<rparr>
         \<and> (\<exists>new ok. trace fs' = EvRename (filePathF lw) new ok # trace fs
                \<and> (ok \<longleftrightarrow> err = None))"
  using assms
  by (auto simp: renameLog_def time_Now_def Let_def os_Rename_def next_fault_def log_event_def
           split: option.splits list.splits fault.splits)

lemma renameLog_Panics:
  "renameLog lw fs = Panics \<longleftrightarrow> TimeFormatterF (cfgF lw) = None"
  by (auto simp: renameLog_def time_Now_def Let_def split: option.splits prod.splits)

lemma openLog_effect:
  assumes "openLog lw fs = (err, lw', fs')"
  shows "(\<exists>e. err = Some e \<and> trace fs' = EvOpen (filePathF lw) False # trace fs
              \<and> lw' = lw\<lparr>filePointerF := None\<rparr>)
       \<or> (\<exists>e ok. err = Some e
              \<and> trace fs' = EvClose (Some (filePathF lw)) ok # EvStat (Some (filePathF lw)) False
                              # EvOpen (filePathF lw) True # trace fs
              \<and> lw' = lw\<lparr>filePointerF := None\<rparr>)
       \<or> (err = None
              \<and> trace fs' = EvStat (Some (filePathF lw)) True # EvOpen (filePathF lw) True # trace fs
              \<and> lw' = lw\<lparr>filePointerF := Some (filePathF lw),
                          fileSizeNow := int (length (disk fs' (filePathF lw)))\<rparr>)"
  using assms
  by (auto simp: openLog_def os_OpenFile_def fp_Stat_def fp_Close_def next_fault_def
                 log_event_def disk_def
           split: option.splits list.splits fault.splits if_splits)

lemma rotateLog_effect:
  assumes "rotateLog lw fs = Returns (err, lw', fs')"
  shows "\<exists>evs. trace fs' = evs @ trace fs \<and> rotation_stepsF lw err evs"
proof -
  obtain e1 lw1 fs1 where c: "closeLog lw fs = (e1, lw1, fs1)"
    by (cases "closeLog lw fs") auto
  note ce = closeLog_effect[OF c]
  show ?thesis
  proof (cases e1)
    case (Some e)
    with assms c ce show ?thesis
      by (auto simp: rotateLog_def rotation_stepsF_def)
  next
    case None
    from assms c None obtain e2 lw2 fs2 where r: "renameLog lw1 fs1 = Returns (e2, lw2, fs2)"
      by (cases "renameLog lw1 fs1") (auto simp: rotateLog_def)
    note re = renameLog_effect[OF r]
    show ?thesis
    proof (cases e2)
      case (Some e)
      with assms c ce r re None show ?thesis
        by (auto simp: rotateLog_def rotation_stepsF_def)
    next
      case n2: None
      have cr: "openLog lw2 fs2 = (err, lw', fs')"
        using assms c r None n2 by (simp add: rotateLog_def)
      have p2: "filePathF lw2 = filePathF lw" using ce re by simp
      from openLog_effect[OF cr] ce re None n2 p2 show ?thesis
        unfolding rotation_stepsF_def by (elim disjE exE conjE) auto
    qed
  qed
qed

lemma rotateLog_Panics:
  assumes "rotateLog lw fs = Panics"
  shows "TimeFormatterF (cfgF lw) = None"
proof -
  obtain e1 lw1 fs1 where c: "closeLog lw fs = (e1, lw1, fs1)"
    by (cases "closeLog lw fs") auto
  have l1: "cfgF lw1 = cfgF lw" using closeLog_effect[OF c] by simp
  from assms c have "renameLog lw1 fs1 = Panics"
    by (cases e1; cases "renameLog lw1 fs1") (auto simp: rotateLog_def split: option.splits)
  then show ?thesis using l1 by (simp add: renameLog_Panics)
qed

lemma rotate_steps:
  assumes "rotate lw fs = (err, lw', fs')"
  shows "\<exists>evs. trace fs' = evs @ trace fs \<and> rotation_steps lw err evs"
  using rotate_effect[OF assms] by blast

text \<open>
  C7. A rotation makes its system calls in the order close, rename, open, and stops at the
  first that fails: the events it adds to the trace are a failed close alone, or a close
  and a failed rename, or a close, a rename and a failed open, or all three successful;
  an error is returned exactly in the first three cases. This holds for \<open>rotate\<close> of
  logWriter.go and for \<open>rotateLog\<close> of file.go, whose last step also reads the size of the
  new file and closes it again when that fails; \<open>rotateLog\<close> panics only when the
  configuration has no time formatter.
\<close>

theorem rotation_is_close_rename_create:
  "(case rotate lw fs of
      (err, lw', fs') \<Rightarrow> \<exists>evs. trace fs' = evs @ trace fs \<and> rotation_steps lw err evs)
 \<and> (case rotateLog lwF fs of
      Panics \<Rightarrow> TimeFormatterF (cfgF lwF) = None
    | Returns (err, lw', fs') \<Rightarrow> \<exists>evs. trace fs' = evs @ trace fs \<and> rotation_stepsF lwF err evs)"
proof
  show "case rotate lw fs of
      (err, lw', fs') \<Rightarrow> \<exists>evs. trace fs' = evs @ trace fs \<and> rotation_steps lw err evs"
    using rotate_steps[of lw fs] by (cases "rotate lw fs") simp
  show "case rotateLog lwF fs of
      Panics \<Rightarrow> TimeFormatterF (cfgF lwF) = None
    | Returns (err, lw', fs') \<Rightarrow> \<exists>evs. trace fs' = evs @ trace fs \<and> rotation_stepsF lwF err evs"
  proof (cases "rotateLog lwF fs")
    case Panics
    then show ?thesis using rotateLog_Panics by simp
  next
    case (Returns r)
    obtain err lw' fs' where r: "r = (err, lw', fs')" by (cases r) auto
    show ?thesis using rotateLog_effect[of lwF fs err lw' fs'] Returns r by simp
  qed
qed

section \<open>Claims about Write and Close of file.go\<close>

lemma example_NewLogWriterF:
  "NewLogWriterF example_envF None empty_fs
     = (Inr (example_lwF 128 defaultMaxBytes), example_fsF [])"
  by (simp add: NewLogWriterF_def example_envF_def zeroConfigF_def empty_fs_def example_lwF_def
        example_fsF_def openLog_def os_OpenFile_def fp_Stat_def next_fault_def
        defaultBufferSizeMax_def log_event_def filepath_Join_def defaultFileMode_def Let_def)

lemma WriteF_empty_never_succeeds:
  assumes "0 < BufferSizeMax (cfgF lw)"
  shows "WriteF lw fs [] \<noteq> Some (Returns ((n, None), lw', fs'))"
  using assms
  by (auto simp: WriteF_def time_Now_def Let_def
           split: option.splits outcome.splits prod.splits if_splits)

lemma WriteF_empty_Panics:
  assumes "0 < BufferSizeMax (cfgF lw)"
      and "TimeFormatterF (cfgF lw) \<noteq> None \<or> timeOfFirstWrite lw \<noteq> []"
      and "bufF lw = []"
  shows "WriteF lw fs [] = Some Panics"
  using assms
  by (auto simp: WriteF_def time_Now_def Let_def split: option.splits)

lemma Write_empty_returns:
  assumes "flushThreshold lw \<noteq> 0" and "flush_settled lw"
  shows "Write lw fs [] = Returns ((0, None), lw, fs)"
  using assms by (auto simp: Write_def flush_settled_def Let_def)

text \<open>
  C8 fails in file.go. The constructor, called with a nil configuration on an empty file
  system, yields a writer that buffers up to 128 bytes; its Write, called with the empty
  slice, panics at \<open>p[len(p)-1]\<close> instead of returning 0 and no error.
\<close>

theorem WriteF_empty_slice_panics:
  "NewLogWriterF example_envF None empty_fs
     = (Inr (example_lwF 128 defaultMaxBytes), example_fsF [])
 \<and> WriteF (example_lwF 128 defaultMaxBytes) (example_fsF []) [] = Some Panics"
proof
  show "NewLogWriterF example_envF None empty_fs
     = (Inr (example_lwF 128 defaultMaxBytes), example_fsF [])"
    by (rule example_NewLogWriterF)
  show "WriteF (example_lwF 128 defaultMaxBytes) (example_fsF []) [] = Some Panics"
    by (rule WriteF_empty_Panics) (simp_all add: example_lwF_def)
qed

end
